theory Spec2Isabelle
  imports Complex_Main "HOL-Library.Monad_Syntax"
begin

section \<open>Data model (frontend/src/lib/colorUtils.ts, colorNames.ts)\<close>

text \<open>
  A JavaScript \<open>number\<close> is an IEEE 754 double. It is modelled as an \<open>int\<close> where the code
  only ever produces integers (\<open>parseInt\<close>), and as the \<open>real\<close> it denotes elsewhere.
  \<open>rgbToLab\<close> is read over the exact reals: its two powers \<open>Math.pow(v, 2.4)\<close> and
  \<open>Math.pow(x, 1/3)\<close> are approximated in an implementation-defined way, so its result is
  known up to rounding only. \<open>deltaE2000\<close> uses nothing but \<open>+\<close>, \<open>-\<close>, \<open>*\<close>, \<open>/\<close> and
  \<open>Math.sqrt\<close>, which IEEE 754 rounds correctly, and it is read with that rounding: a
  square root of a negative argument is NaN, the value \<open>None\<close> of an option. The
  one-letter field names of the TypeScript interfaces \<open>RGB\<close>, \<open>LAB\<close> and \<open>ColorName\<close> are
  prefixed, since a record field is a constant.
\<close>

record RGB =
  rgb_r :: int
  rgb_g :: int
  rgb_b :: int

record LAB =
  lab_l :: real
  lab_a :: real
  lab_b :: real

record ColorName =
  cn_name :: string
  cn_hex :: string
  cn_rgb :: "int \<times> int \<times> int"

datatype error = Error string

subsection \<open>The regular expression \<open>/^#?([a-f\d]{2})([a-f\d]{2})([a-f\d]{2})$/i\<close>\<close>

text \<open>The character class \<open>[a-f\d]\<close> under the flag \<open>i\<close>.\<close>

definition is_hex_digit :: "char \<Rightarrow> bool" where
  "is_hex_digit c = (c \<in> set ''0123456789abcdefABCDEF'')"

text \<open>
  \<open>exec\<close>/\<open>match\<close> of the expression: an optional \<open>#\<close>, then three groups of two
  hexadecimal digits, anchored at both ends. The result is the three captured groups.
\<close>

definition match_hex :: "string \<Rightarrow> (string \<times> string \<times> string) option" where
  "match_hex hex =
     (let s = (case hex of [] \<Rightarrow> hex | c # cs \<Rightarrow> if c = CHR ''#'' then cs else hex)
      in if length s = 6 \<and> list_all is_hex_digit s
         then Some (take 2 s, take 2 (drop 2 s), drop 4 s)
         else None)"

subsection \<open>\<open>parseInt(x, 16)\<close> and \<open>Number.prototype.toString(16)\<close>\<close>

definition hex_digit_value :: "char \<Rightarrow> int" where
  "hex_digit_value c =
     (case map_of (zip ''0123456789abcdefABCDEF''
                       [0, 1, 2, 3, 4, 5, 6, 7, 8, 9, 10, 11, 12, 13, 14, 15, 10, 11, 12, 13, 14, 15]) c of
        Some v \<Rightarrow> v
      | None \<Rightarrow> 0)"

text \<open>
  \<open>parseInt\<close> with radix 16 reads the longest prefix of hexadecimal digits. It is only
  called on a captured group, two hexadecimal digits, so its sign, white-space and NaN
  cases are not modelled.
\<close>

definition parseInt16 :: "string \<Rightarrow> int" where
  "parseInt16 s = foldl (\<lambda>acc c. 16 * acc + hex_digit_value c) 0 (takeWhile is_hex_digit s)"

definition digit_char :: "nat \<Rightarrow> char" where
  "digit_char d = ''0123456789abcdef'' ! d"

fun digits16 :: "nat \<Rightarrow> string" where
  "digits16 n = (if n < 16 then [digit_char n] else digits16 (n div 16) @ [digit_char (n mod 16)])"

definition toString16 :: "int \<Rightarrow> string" where
  "toString16 i = (if i < 0 then CHR ''-'' # digits16 (nat (- i)) else digits16 (nat i))"

text \<open>\<open>Math.round\<close> rounds to the nearest integer, a half towards \<open>+\<infinity>\<close>.\<close>

definition Math_round :: "real \<Rightarrow> int" where
  "Math_round x = \<lfloor>x + 1 / 2\<rfloor>"

text \<open>\<open>Math.sqrt\<close> on an integer argument, as \<open>findNearestColorName\<close> calls it: only
  the order of two results is used there, and rounding keeps the order of the roots of
  two integers below \<open>2 ^ 18\<close>.\<close>

definition Math_sqrt :: "real \<Rightarrow> real option" where
  "Math_sqrt x = (if x < 0 then None else Some (sqrt x))"

text \<open>The comparison \<open><\<close> of two numbers that may be NaN: false as soon as one is.\<close>

definition js_lt :: "real option \<Rightarrow> real option \<Rightarrow> bool" where
  "js_lt x y = (case x of None \<Rightarrow> False | Some u \<Rightarrow> (case y of None \<Rightarrow> False | Some v \<Rightarrow> u < v))"

section \<open>colorUtils.ts\<close>

definition hexToRgb :: "string \<Rightarrow> error + RGB" where
  "hexToRgb hex =
     (case match_hex hex of
        None \<Rightarrow> Inl (Error (''Invalid hex color: '' @ hex))
      | Some (g1, g2, g3) \<Rightarrow>
          Inr \<lparr>rgb_r = parseInt16 g1, rgb_g = parseInt16 g2, rgb_b = parseInt16 g3\<rparr>)"

definition rgbToHex :: "real \<Rightarrow> real \<Rightarrow> real \<Rightarrow> string" where
  "rgbToHex r g b =
     CHR ''#'' # concat (map (\<lambda>x. let hex = toString16 (Math_round x)
                                  in if length hex = 1 then CHR ''0'' # hex else hex) [r, g, b])"

text \<open>
  \<open>Math.pow(v, 2.4)\<close> and \<open>Math.pow(x, 1/3)\<close> are only reached with a positive base
  (\<open>rn > 0.04045\<close>, \<open>x > 0.008856\<close>), where they are \<open>powr\<close>.
\<close>

definition rgbToLab :: "real \<Rightarrow> real \<Rightarrow> real \<Rightarrow> LAB" where
  "rgbToLab r g b =
     (let rn = r / 255; gn = g / 255; bn = b / 255;
          rn = (if rn > 0.04045 then ((rn + 0.055) / 1.055) powr 2.4 else rn / 12.92);
          gn = (if gn > 0.04045 then ((gn + 0.055) / 1.055) powr 2.4 else gn / 12.92);
          bn = (if bn > 0.04045 then ((bn + 0.055) / 1.055) powr 2.4 else bn / 12.92);
          x = (rn * 0.4124564 + gn * 0.3575761 + bn * 0.1804375) / 0.95047;
          y = (rn * 0.2126729 + gn * 0.7151522 + bn * 0.0721750) / 1.00000;
          z = (rn * 0.0193339 + gn * 0.1191920 + bn * 0.9503041) / 1.08883;
          fx = (if x > 0.008856 then x powr (1 / 3) else 7.787 * x + 16 / 116);
          fy = (if y > 0.008856 then y powr (1 / 3) else 7.787 * y + 16 / 116);
          fz = (if z > 0.008856 then z powr (1 / 3) else 7.787 * z + 16 / 116)
      in \<lparr>lab_l = 116 * fy - 16, lab_a = 500 * (fx - fy), lab_b = 200 * (fy - fz)\<rparr>)"

section \<open>IEEE 754 double arithmetic\<close>

text \<open>
  Every arithmetic operation on doubles, and \<open>Math.sqrt\<close>, returns the exact result
  rounded to the nearest representable value, a tie to the even significand. The
  operations below are that rounding on the normal range (overflow, subnormal numbers and
  signed zeros are left out); a representable value is held as the real number it
  denotes.
\<close>

text \<open>\<open>ilog2 n\<close> is \<open>\<lfloor>log\<^sub>2 n\<rfloor>\<close> for \<open>n \<ge> 1\<close>, and \<open>exponent_of x\<close> is
  \<open>\<lfloor>log\<^sub>2 \<bar>x\<bar>\<rfloor>\<close> for \<open>x \<noteq> 0\<close>: the binary exponent of \<open>x\<close>.\<close>

fun ilog2 :: "nat \<Rightarrow> nat" where
  "ilog2 n = (if n < 2 then 0 else Suc (ilog2 (n div 2)))"

definition exponent_of :: "real \<Rightarrow> int" where
  "exponent_of x =
     (let a = \<bar>x\<bar>
      in if 1 \<le> a then int (ilog2 (nat \<lfloor>a\<rfloor>)) else - int (ilog2 (nat (\<lceil>1 / a\<rceil> - 1))) - 1)"

definition pow2 :: "int \<Rightarrow> real" where
  "pow2 e = (if 0 \<le> e then 2 ^ nat e else 1 / 2 ^ nat (- e))"

text \<open>Rounding to the nearest integer, a tie to the even one.\<close>

definition round_half_even :: "real \<Rightarrow> int" where
  "round_half_even x =
     (let f = \<lfloor>x\<rfloor>; d = x - of_int f
      in if d < 1 / 2 then f else if 1 / 2 < d then f + 1 else if even f then f else f + 1)"

text \<open>\<open>fl x\<close> rounds \<open>x\<close> to 53 significant bits: the unit in the last place of \<open>x\<close> is
  \<open>2\<close> to the power \<open>exponent_of x - 52\<close>.\<close>

definition fl :: "real \<Rightarrow> real" where
  "fl x = (if x = 0 then 0
           else let u = pow2 (exponent_of x - 52) in of_int (round_half_even (x / u)) * u)"

text \<open>\<open>isqrt n\<close> is \<open>\<lfloor>sqrt n\<rfloor>\<close>. \<open>fl_sqrt\<close> is the correctly rounded square root, NaN
  (\<open>None\<close>) below zero: with \<open>2 ^ 104 \<le> s < 2 ^ 106\<close> the nearest integer to \<open>sqrt s\<close> is
  \<open>(\<lfloor>sqrt (4 * s)\<rfloor> + 1) div 2\<close>, and it has 53 bits.\<close>

fun isqrt :: "nat \<Rightarrow> nat" where
  "isqrt n = (if n < 2 then n
              else let s = 2 * isqrt (n div 4) in if (s + 1) * (s + 1) \<le> n then s + 1 else s)"

definition fl_sqrt :: "real \<Rightarrow> real option" where
  "fl_sqrt x =
     (if x < 0 then None
      else if x = 0 then Some 0
      else let e = (exponent_of x - 104) div 2;
               s = x / (pow2 e * pow2 e);
               m = (int (isqrt (nat \<lfloor>4 * s\<rfloor>)) + 1) div 2
           in Some (of_int m * pow2 e))"

declare ilog2.simps [simp del] isqrt.simps [simp del]

section \<open>The colour difference (colorUtils.ts)\<close>

text \<open>
  \<open>deltaE2000\<close> with every operation rounded, in the order the source evaluates them. The
  literals \<open>0.045\<close> and \<open>0.015\<close> are rounded when they are read, and \<open>Math.pow(t, 2)\<close> is
  read as the correctly rounded square, the rounded product \<open>t * t\<close>. Each \<open>Math.sqrt\<close>
  may yield NaN, which every later operation propagates: the bind of the option monad.
  The arguments are any reals, so the fields of a \<open>LAB\<close> need not be doubles; the
  properties below that fix the arguments fix them at doubles or at results of
  \<open>rgbToLab\<close>.
\<close>

definition deltaE2000 :: "LAB \<Rightarrow> LAB \<Rightarrow> real option" where
  "deltaE2000 lab1 lab2 =
     (let dL = fl (lab_l lab1 - lab_l lab2);
          da = fl (lab_a lab1 - lab_a lab2);
          db = fl (lab_b lab1 - lab_b lab2)
      in do {
        c1 \<leftarrow> fl_sqrt (fl (fl (lab_a lab1 * lab_a lab1) + fl (lab_b lab1 * lab_b lab1)));
        c2 \<leftarrow> fl_sqrt (fl (fl (lab_a lab2 * lab_a lab2) + fl (lab_b lab2 * lab_b lab2)));
        let dc = fl (c1 - c2);
        dh \<leftarrow> fl_sqrt (fl (fl (fl (da * da) + fl (db * db)) - fl (dc * dc)));
        let sl = 1;
        let sc = fl (1 + fl (fl 0.045 * c1));
        let sh = fl (1 + fl (fl 0.015 * c1));
        let tL = fl (dL / sl);
        let tc = fl (dc / sc);
        let th = fl (dh / sh);
        fl_sqrt (fl (fl (fl (tL * tL) + fl (tc * tc)) + fl (th * th)))
      })"


text \<open>The chroma that \<open>deltaE2000\<close> computes for each of its two arguments, the values
  \<open>c1\<close> and \<open>c2\<close> of the source.\<close>

definition chroma :: "LAB \<Rightarrow> real option" where
  "chroma c = fl_sqrt (fl (fl (lab_a c * lab_a c) + fl (lab_b c * lab_b c)))"

section \<open>colorNames.ts\<close>

definition colorNames :: "ColorName list" where
  "colorNames =
    [\<lparr>cn_name = ''black'', cn_hex = ''#000000'', cn_rgb = (0, 0, 0)\<rparr>,
     \<lparr>cn_name = ''white'', cn_hex = ''#FFFFFF'', cn_rgb = (255, 255, 255)\<rparr>,
     \<lparr>cn_name = ''red'', cn_hex = ''#FF0000'', cn_rgb = (255, 0, 0)\<rparr>,
     \<lparr>cn_name = ''green'', cn_hex = ''#008000'', cn_rgb = (0, 128, 0)\<rparr>,
     \<lparr>cn_name = ''blue'', cn_hex = ''#0000FF'', cn_rgb = (0, 0, 255)\<rparr>,
     \<lparr>cn_name = ''yellow'', cn_hex = ''#FFFF00'', cn_rgb = (255, 255, 0)\<rparr>,
     \<lparr>cn_name = ''cyan'', cn_hex = ''#00FFFF'', cn_rgb = (0, 255, 255)\<rparr>,
     \<lparr>cn_name = ''magenta'', cn_hex = ''#FF00FF'', cn_rgb = (255, 0, 255)\<rparr>,
     \<lparr>cn_name = ''orange'', cn_hex = ''#FFA500'', cn_rgb = (255, 165, 0)\<rparr>,
     \<lparr>cn_name = ''pink'', cn_hex = ''#FFC0CB'', cn_rgb = (255, 192, 203)\<rparr>,
     \<lparr>cn_name = ''purple'', cn_hex = ''#800080'', cn_rgb = (128, 0, 128)\<rparr>,
     \<lparr>cn_name = ''brown'', cn_hex = ''#A52A2A'', cn_rgb = (165, 42, 42)\<rparr>,
     \<lparr>cn_name = ''gray'', cn_hex = ''#808080'', cn_rgb = (128, 128, 128)\<rparr>,
     \<lparr>cn_name = ''grey'', cn_hex = ''#808080'', cn_rgb = (128, 128, 128)\<rparr>,
     \<lparr>cn_name = ''steel blue'', cn_hex = ''#4682B4'', cn_rgb = (70, 130, 180)\<rparr>,
     \<lparr>cn_name = ''mustard'', cn_hex = ''#FFDB58'', cn_rgb = (255, 219, 88)\<rparr>,
     \<lparr>cn_name = ''navy'', cn_hex = ''#000080'', cn_rgb = (0, 0, 128)\<rparr>,
     \<lparr>cn_name = ''teal'', cn_hex = ''#008080'', cn_rgb = (0, 128, 128)\<rparr>,
     \<lparr>cn_name = ''olive'', cn_hex = ''#808000'', cn_rgb = (128, 128, 0)\<rparr>,
     \<lparr>cn_name = ''maroon'', cn_hex = ''#800000'', cn_rgb = (128, 0, 0)\<rparr>,
     \<lparr>cn_name = ''lime'', cn_hex = ''#00FF00'', cn_rgb = (0, 255, 0)\<rparr>,
     \<lparr>cn_name = ''aqua'', cn_hex = ''#00FFFF'', cn_rgb = (0, 255, 255)\<rparr>,
     \<lparr>cn_name = ''silver'', cn_hex = ''#C0C0C0'', cn_rgb = (192, 192, 192)\<rparr>,
     \<lparr>cn_name = ''gold'', cn_hex = ''#FFD700'', cn_rgb = (255, 215, 0)\<rparr>]"

text \<open>\<open>minDist\<close> starts at \<open>Infinity\<close>, which every finite distance is below.\<close>

datatype ext_number = Infinity | Finite real

fun below :: "real \<Rightarrow> ext_number \<Rightarrow> bool" where
  "below d Infinity = True"
| "below d (Finite m) = (d < m)"

text \<open>The squared distance under the root, on the integers that \<open>parseInt\<close> gives.\<close>

definition rgb_sq_dist :: "int \<times> int \<times> int \<Rightarrow> ColorName \<Rightarrow> int" where
  "rgb_sq_dist p color =
     (case p of (r, g, b) \<Rightarrow> (case cn_rgb color of (c0, c1, c2) \<Rightarrow>
        (r - c0)\<^sup>2 + (g - c1)\<^sup>2 + (b - c2)\<^sup>2))"

text \<open>One iteration of the loop \<open>for (const color of colorNames)\<close> on the state
  \<open>(minDist, nearest)\<close>.\<close>

definition scan_step ::
  "int \<times> int \<times> int \<Rightarrow> ext_number \<times> ColorName option \<Rightarrow> ColorName \<Rightarrow> ext_number \<times> ColorName option"
where
  "scan_step p st color =
     (case Math_sqrt (real_of_int (rgb_sq_dist p color)) of
        None \<Rightarrow> st
      | Some dist' \<Rightarrow> if below dist' (fst st) then (Finite dist', Some color) else st)"

definition scan_names :: "int \<times> int \<times> int \<Rightarrow> ColorName list \<Rightarrow> ext_number \<times> ColorName option" where
  "scan_names p cs = foldl (scan_step p) (Infinity, None) cs"

definition findNearestColorName :: "string \<Rightarrow> ColorName option" where
  "findNearestColorName hex =
     (case match_hex hex of
        None \<Rightarrow> None
      | Some (g1, g2, g3) \<Rightarrow> snd (scan_names (parseInt16 g1, parseInt16 g2, parseInt16 g3) colorNames))"

section \<open>Notions used to state the properties\<close>

text \<open>A well-formed colour string, in the words of the specification: an optional \<open>#\<close>
  followed by exactly six hexadecimal digits, in either case.\<close>

definition well_formed_hex :: "string \<Rightarrow> bool" where
  "well_formed_hex s =
     (\<exists>t. (s = t \<or> s = CHR ''#'' # t) \<and> length t = 6
          \<and> (\<forall>c\<in>set t. c \<in> set ''0123456789abcdefABCDEF''))"

text \<open>The digits that \<open>toString(16)\<close> writes.\<close>

definition is_lower_hex_digit :: "char \<Rightarrow> bool" where
  "is_lower_hex_digit c = (c \<in> set ''0123456789abcdef'')"

text \<open>
  A value read from an object, and the properties of an object of the interface
  \<open>ColorName\<close>, as every entry of \<open>colorNames\<close> has them: \<open>name\<close>, \<open>hex\<close> and \<open>rgb\<close>.
  Reading any other property of it gives \<open>undefined\<close>, the value \<open>None\<close>.
\<close>

datatype js_value = Str string | Num real | Arr "js_value list"

definition ColorName_property :: "ColorName \<Rightarrow> string \<Rightarrow> js_value option" where
  "ColorName_property c k =
     (if k = ''name'' then Some (Str (cn_name c))
      else if k = ''hex'' then Some (Str (cn_hex c))
      else if k = ''rgb'' then
        (case cn_rgb c of (r, g, b) \<Rightarrow>
           Some (Arr [Num (real_of_int r), Num (real_of_int g), Num (real_of_int b)]))
      else None)"

text \<open>The three stages of \<open>rgbToLab\<close>, named: the decoding of one channel, the
  three rows of the matrix, each divided by its white-point coordinate, and the curve of
  one coordinate.\<close>

definition srgb_linear :: "real \<Rightarrow> real" where
  "srgb_linear c =
     (if c / 255 > 0.04045 then ((c / 255 + 0.055) / 1.055) powr 2.4 else c / 255 / 12.92)"

definition lab_f :: "real \<Rightarrow> real" where
  "lab_f t = (if t > 0.008856 then t powr (1 / 3) else 7.787 * t + 16 / 116)"

definition xyz_x :: "real \<Rightarrow> real \<Rightarrow> real \<Rightarrow> real" where
  "xyz_x rl gl bl = (rl * 0.4124564 + gl * 0.3575761 + bl * 0.1804375) / 0.95047"

definition xyz_y :: "real \<Rightarrow> real \<Rightarrow> real \<Rightarrow> real" where
  "xyz_y rl gl bl = (rl * 0.2126729 + gl * 0.7151522 + bl * 0.0721750) / 1.00000"

definition xyz_z :: "real \<Rightarrow> real \<Rightarrow> real \<Rightarrow> real" where
  "xyz_z rl gl bl = (rl * 0.0193339 + gl * 0.1191920 + bl * 0.9503041) / 1.08883"

subsection \<open>The conversion to Lab as the specification words it\<close>

text \<open>
  The decoding of one channel \<open>c\<close> (already divided by 255): linear below the threshold
  \<open>0.04045\<close>, the power curve above. The specification does not say which piece holds at
  the threshold itself, so the relation leaves the value there open.
\<close>

definition srgb_gamma_decoded :: "real \<Rightarrow> real \<Rightarrow> bool" where
  "srgb_gamma_decoded c v =
     ((c < 0.04045 \<longrightarrow> v = c / 12.92) \<and> (0.04045 < c \<longrightarrow> v = ((c + 0.055) / 1.055) powr 2.4))"

text \<open>
  The curve of one XYZ coordinate: the cube root above the breakpoint \<open>0.008856\<close>, linear
  below it; open at the breakpoint.
\<close>

definition lab_curve_value :: "real \<Rightarrow> real \<Rightarrow> bool" where
  "lab_curve_value t f =
     ((0.008856 < t \<longrightarrow> f = root 3 t) \<and> (t < 0.008856 \<longrightarrow> f = 7.787 * t + 16 / 116))"

text \<open>
  The whole conversion: every channel decoded, the three coordinates by the fixed matrix
  (\<open>xyz_x\<close>, \<open>xyz_y\<close>, \<open>xyz_z\<close>, each row divided by the D65 white point), and
  \<open>L = 116 fy - 16\<close>, \<open>a = 500 (fx - fy)\<close>, \<open>b = 200 (fy - fz)\<close>.
\<close>

definition spec_rgbToLab :: "real \<Rightarrow> real \<Rightarrow> real \<Rightarrow> LAB \<Rightarrow> bool" where
  "spec_rgbToLab r g b lab =
     (\<exists>rl gl bl fx fy fz.
        srgb_gamma_decoded (r / 255) rl \<and> srgb_gamma_decoded (g / 255) gl \<and> srgb_gamma_decoded (b / 255) bl
      \<and> lab_curve_value (xyz_x rl gl bl) fx
      \<and> lab_curve_value (xyz_y rl gl bl) fy
      \<and> lab_curve_value (xyz_z rl gl bl) fz
      \<and> lab = \<lparr>lab_l = 116 * fy - 16, lab_a = 500 * (fx - fy), lab_b = 200 * (fy - fz)\<rparr>)"

section \<open>The deduplication pass of the palette extractor\<close>








section \<open>Properties\<close>

subsection \<open>Hexadecimal digits\<close>

lemma digit_char_cases:
  assumes "d < 16"
  shows "d \<in> {0, 1, 2, 3, 4, 5, 6, 7, 8, 9, 10, 11, 12, 13, 14, 15::nat}"
  using assms by simp arith

lemma digit_char_hex:
  assumes "d < 16" shows "is_hex_digit (digit_char d)"
  using digit_char_cases [OF assms] by (elim insertE emptyE) (simp_all add: is_hex_digit_def digit_char_def)

lemma digit_char_lower:
  assumes "d < 16" shows "is_lower_hex_digit (digit_char d)"
  using digit_char_cases [OF assms] by (elim insertE emptyE) (simp_all add: digit_char_def is_lower_hex_digit_def)

lemma digit_char_value:
  assumes "d < 16" shows "hex_digit_value (digit_char d) = int d"
  using digit_char_cases [OF assms] by (elim insertE emptyE) (simp_all add: hex_digit_value_def digit_char_def)

lemma digits16_byte:
  "n < 256 \<Longrightarrow> digits16 n = (if n < 16 then [digit_char n] else [digit_char (n div 16), digit_char (n mod 16)])"
  by (subst digits16.simps) (simp add: less_mult_imp_div_less)

lemma Math_round_int: "Math_round (real_of_int i) = i"
  by (simp add: Math_round_def)

lemma parseInt16_pair:
  "is_hex_digit c \<Longrightarrow> is_hex_digit d \<Longrightarrow> parseInt16 [c, d] = 16 * hex_digit_value c + hex_digit_value d"
  by (simp add: parseInt16_def)


subsection \<open>The scan of the reference table\<close>

lemma rgb_sq_dist_nonneg: "0 \<le> rgb_sq_dist p c"
  by (simp add: rgb_sq_dist_def split: prod.splits)

lemma scan_step_eq:
  "scan_step p (Finite (sqrt (real_of_int m)), Some c) color =
     (if rgb_sq_dist p color < m then (Finite (sqrt (real_of_int (rgb_sq_dist p color))), Some color)
      else (Finite (sqrt (real_of_int m)), Some c))"
  using rgb_sq_dist_nonneg [of p color] by (simp add: scan_step_def Math_sqrt_def)

lemma scan_step_first:
  "scan_step p (Infinity, None) color = (Finite (sqrt (real_of_int (rgb_sq_dist p color))), Some color)"
  using rgb_sq_dist_nonneg [of p color] by (simp add: scan_step_def Math_sqrt_def)

lemma scan_names_snoc: "scan_names p (cs @ [c]) = scan_step p (scan_names p cs) c"
  by (simp add: scan_names_def)

lemma scan_names_first_minimum:
  assumes "cs \<noteq> []"
  shows "\<exists>i<length cs.
           scan_names p cs = (Finite (sqrt (real_of_int (rgb_sq_dist p (cs ! i)))), Some (cs ! i))
         \<and> (\<forall>j<length cs. rgb_sq_dist p (cs ! i) \<le> rgb_sq_dist p (cs ! j))
         \<and> (\<forall>j<i. rgb_sq_dist p (cs ! i) < rgb_sq_dist p (cs ! j))"
  using assms
proof (induction cs rule: rev_nonempty_induct)
  case (single c)
  show ?case by (simp add: scan_names_def scan_step_first)
next
  case (snoc c cs)
  then obtain i where i: "i < length cs"
    and res: "scan_names p cs = (Finite (sqrt (real_of_int (rgb_sq_dist p (cs ! i)))), Some (cs ! i))"
    and least: "\<forall>j<length cs. rgb_sq_dist p (cs ! i) \<le> rgb_sq_dist p (cs ! j)"
    and first: "\<forall>j<i. rgb_sq_dist p (cs ! i) < rgb_sq_dist p (cs ! j)"
    by blast
  show ?case
  proof (cases "rgb_sq_dist p c < rgb_sq_dist p (cs ! i)")
    case True
    have "scan_names p (cs @ [c]) = (Finite (sqrt (real_of_int (rgb_sq_dist p c))), Some c)"
      using True by (simp add: scan_names_snoc res scan_step_eq)
    moreover have "\<forall>j<length (cs @ [c]). rgb_sq_dist p c \<le> rgb_sq_dist p ((cs @ [c]) ! j)"
      using True least by (auto simp: nth_append less_Suc_eq intro: order_trans less_imp_le)
    moreover have "\<forall>j<length cs. rgb_sq_dist p c < rgb_sq_dist p ((cs @ [c]) ! j)"
      using True least by (auto simp: nth_append intro: less_le_trans)
    ultimately show ?thesis
      by (intro exI [of _ "length cs"]) simp
  next
    case False
    have "scan_names p (cs @ [c]) = (Finite (sqrt (real_of_int (rgb_sq_dist p (cs ! i)))), Some (cs ! i))"
      using False by (simp add: scan_names_snoc res scan_step_eq)
    moreover have "\<forall>j<length (cs @ [c]). rgb_sq_dist p (cs ! i) \<le> rgb_sq_dist p ((cs @ [c]) ! j)"
      using False least by (auto simp: nth_append less_Suc_eq)
    moreover have "\<forall>j<i. rgb_sq_dist p (cs ! i) < rgb_sq_dist p ((cs @ [c]) ! j)"
      using first i by (auto simp: nth_append)
    ultimately show ?thesis
      using i by (intro exI [of _ i]) (simp add: nth_append)
  qed
qed


subsection \<open>Well-formed and malformed colour strings\<close>

lemma well_formed_hex_iff:
  "well_formed_hex s =
     (\<exists>t. (s = t \<or> s = CHR ''#'' # t) \<and> length t = 6 \<and> list_all is_hex_digit t)"
  by (simp only: well_formed_hex_def is_hex_digit_def [abs_def] list_all_iff)

lemma hash_not_hex: "\<not> is_hex_digit CHR ''#''"
  by (simp add: is_hex_digit_def)

lemma match_hex_well_formed: "(match_hex s \<noteq> None) = well_formed_hex s"
proof
  assume m: "match_hex s \<noteq> None"
  define t where "t = (case s of [] \<Rightarrow> s | c # cs \<Rightarrow> if c = CHR ''#'' then cs else s)"
  from m have "length t = 6" and "list_all is_hex_digit t"
    by (auto simp: match_hex_def t_def Let_def split: if_splits)
  moreover have "s = t \<or> s = CHR ''#'' # t"
    by (auto simp: t_def split: list.splits)
  ultimately show "well_formed_hex s"
    unfolding well_formed_hex_iff by (intro exI [of _ t]) simp
next
  assume "well_formed_hex s"
  then obtain t where st: "s = t \<or> s = CHR ''#'' # t" and len: "length t = 6"
    and hex: "list_all is_hex_digit t"
    unfolding well_formed_hex_iff by blast
  from len hex have "t \<noteq> []" and "hd t \<noteq> CHR ''#''"
    using hash_not_hex by (cases t; auto)+
  with st len hex show "match_hex s \<noteq> None"
    by (cases t) (auto simp: match_hex_def)
qed

lemma scan_colorNames_Some: "\<exists>c. snd (scan_names p colorNames) = Some c \<and> c \<in> set colorNames"
proof -
  have ne: "colorNames \<noteq> []" by (simp add: colorNames_def)
  from scan_names_first_minimum [OF ne, of p] obtain i where "i < length colorNames"
    "scan_names p colorNames = (Finite (sqrt (real_of_int (rgb_sq_dist p (colorNames ! i)))), Some (colorNames ! i))"
    by blast
  then show ?thesis by (intro exI [of _ "colorNames ! i"]) simp
qed

text \<open>
  C7. A string that is not an optional \<open>#\<close> followed by exactly six hexadecimal digits is
  rejected before any distance is computed: \<open>hexToRgb\<close> raises its error and
  \<open>findNearestColorName\<close> returns null. For a well-formed string \<open>hexToRgb\<close> returns a
  parsed triple and \<open>findNearestColorName\<close> does not return null, so both reject exactly
  the malformed strings.
\<close>

theorem malformed_hex_rejected:
  "(\<not> well_formed_hex s \<longrightarrow>
       hexToRgb s = Inl (Error (''Invalid hex color: '' @ s)) \<and> findNearestColorName s = None)
   \<and> (well_formed_hex s \<longrightarrow>
       (\<exists>rgb. hexToRgb s = Inr rgb) \<and> findNearestColorName s \<noteq> None)"
proof (cases "match_hex s")
  case None
  then have "\<not> well_formed_hex s" using match_hex_well_formed [of s] by simp
  with None show ?thesis by (simp add: hexToRgb_def findNearestColorName_def)
next
  case (Some gs)
  then have wf: "well_formed_hex s" using match_hex_well_formed [of s] by simp
  obtain g1 g2 g3 where gs: "gs = (g1, g2, g3)" by (cases gs)
  from scan_colorNames_Some [of "(parseInt16 g1, parseInt16 g2, parseInt16 g3)"]
  have "findNearestColorName s \<noteq> None"
    using Some gs by (auto simp: findNearestColorName_def)
  with wf Some gs show ?thesis by (simp add: hexToRgb_def)
qed

text \<open>
  C6. For every well-formed colour string the lookup returns an entry of the reference
  table, never null: the table is not empty and the first entry already replaces the
  initial \<open>Infinity\<close>.
\<close>

theorem lookup_total_on_well_formed:
  assumes "well_formed_hex s"
  shows "\<exists>c. findNearestColorName s = Some c \<and> c \<in> set colorNames"
proof -
  from assms obtain gs where "match_hex s = Some gs"
    using match_hex_well_formed [of s] by auto
  moreover obtain g1 g2 g3 where "gs = (g1, g2, g3)" by (cases gs)
  ultimately show ?thesis
    using scan_colorNames_Some [of "(parseInt16 g1, parseInt16 g2, parseInt16 g3)"]
    by (simp add: findNearestColorName_def)
qed


subsection \<open>The hexadecimal encoding of a colour\<close>

lemma byte_to_hex:
  assumes "0 \<le> i" "i \<le> 255"
  shows "(let hex = toString16 (Math_round (real_of_int i))
          in if length hex = 1 then CHR ''0'' # hex else hex)
         = [digit_char (nat i div 16), digit_char (nat i mod 16)]"
proof -
  have n: "nat i < 256" using assms by simp
  have "toString16 i = digits16 (nat i)" using assms by (simp add: toString16_def)
  moreover have "digit_char 0 = CHR ''0''" by (simp add: digit_char_def)
  ultimately show ?thesis
    using n by (simp add: Math_round_int digits16_byte Let_def)
qed

lemma rgbToHex_bytes:
  assumes "0 \<le> r" "r \<le> 255" "0 \<le> g" "g \<le> 255" "0 \<le> b" "b \<le> 255"
  shows "rgbToHex (real_of_int r) (real_of_int g) (real_of_int b) =
           [CHR ''#'', digit_char (nat r div 16), digit_char (nat r mod 16),
            digit_char (nat g div 16), digit_char (nat g mod 16),
            digit_char (nat b div 16), digit_char (nat b mod 16)]"
  using byte_to_hex [OF assms(1,2)] byte_to_hex [OF assms(3,4)] byte_to_hex [OF assms(5,6)]
  by (simp add: rgbToHex_def)

lemma byte_digits: "0 \<le> i \<Longrightarrow> i \<le> 255 \<Longrightarrow> nat i div 16 < 16 \<and> nat i mod 16 < 16"
  by (simp add: less_mult_imp_div_less)

lemma parse_byte_digits:
  assumes "0 \<le> i" "i \<le> 255"
  shows "parseInt16 [digit_char (nat i div 16), digit_char (nat i mod 16)] = i"
proof -
  from byte_digits [OF assms] have hi: "nat i div 16 < 16" and lo: "nat i mod 16 < 16" by simp_all
  have "parseInt16 [digit_char (nat i div 16), digit_char (nat i mod 16)]
        = 16 * int (nat i div 16) + int (nat i mod 16)"
    by (simp add: parseInt16_pair digit_char_hex digit_char_value hi lo)
  also have "\<dots> = int (nat i)"
    by (simp add: zdiv_int zmod_int)
  finally show ?thesis using assms by simp
qed

lemma match_hex_digits:
  assumes "list_all is_hex_digit [d1, d2, d3, d4, d5, d6]"
  shows "match_hex [CHR ''#'', d1, d2, d3, d4, d5, d6] = Some ([d1, d2], [d3, d4], [d5, d6])"
  using assms by (simp add: match_hex_def)

text \<open>
  C9. For integer channels in \<open>[0, 255]\<close>, \<open>rgbToHex\<close> writes \<open>#\<close> followed by six
  lower-case hexadecimal digits, two per channel and zero-padded, and \<open>hexToRgb\<close> reads
  the same three channels back.
\<close>

theorem rgbToHex_hexToRgb_roundtrip:
  assumes "0 \<le> r" "r \<le> 255" "0 \<le> g" "g \<le> 255" "0 \<le> b" "b \<le> 255"
  shows "length (rgbToHex (real_of_int r) (real_of_int g) (real_of_int b)) = 7
       \<and> hd (rgbToHex (real_of_int r) (real_of_int g) (real_of_int b)) = CHR ''#''
       \<and> list_all is_lower_hex_digit (tl (rgbToHex (real_of_int r) (real_of_int g) (real_of_int b)))
       \<and> hexToRgb (rgbToHex (real_of_int r) (real_of_int g) (real_of_int b))
            = Inr \<lparr>rgb_r = r, rgb_g = g, rgb_b = b\<rparr>"
proof -
  note hex = rgbToHex_bytes [OF assms]
  note dr = byte_digits [OF assms(1,2)] and dg = byte_digits [OF assms(3,4)]
    and db = byte_digits [OF assms(5,6)]
  have shape: "length (rgbToHex (real_of_int r) (real_of_int g) (real_of_int b)) = 7"
    "hd (rgbToHex (real_of_int r) (real_of_int g) (real_of_int b)) = CHR ''#''"
    by (simp_all add: hex)
  have lower: "list_all is_lower_hex_digit (tl (rgbToHex (real_of_int r) (real_of_int g) (real_of_int b)))"
    using dr dg db by (simp add: hex digit_char_lower)
  have "match_hex (rgbToHex (real_of_int r) (real_of_int g) (real_of_int b))
        = Some ([digit_char (nat r div 16), digit_char (nat r mod 16)],
                [digit_char (nat g div 16), digit_char (nat g mod 16)],
                [digit_char (nat b div 16), digit_char (nat b mod 16)])"
    unfolding hex using dr dg db by (intro match_hex_digits) (simp add: digit_char_hex)
  then have parsed: "hexToRgb (rgbToHex (real_of_int r) (real_of_int g) (real_of_int b))
            = Inr \<lparr>rgb_r = r, rgb_g = g, rgb_b = b\<rparr>"
    by (simp add: hexToRgb_def parse_byte_digits assms)
  from shape lower parsed show ?thesis by blast
qed

theorem rgbToHex_hexToRgb_roundtrip_witness:
  "rgbToHex 255 165 0 = ''#ffa500'' \<and> hexToRgb ''#ffa500'' = Inr \<lparr>rgb_r = 255, rgb_g = 165, rgb_b = 0\<rparr>"
proof -
  have eq: "rgbToHex 255 165 0 = ''#ffa500''"
    using rgbToHex_bytes [of 255 165 0] by (simp add: digit_char_def)
  from rgbToHex_hexToRgb_roundtrip [of 255 165 0] show ?thesis
    by (simp add: eq)
qed

subsection \<open>The lookup on concrete strings\<close>

lemma well_formed_hex_code: "well_formed_hex s = (match_hex s \<noteq> None)"
  by (simp only: match_hex_well_formed)

lemma malformed_FFA50: "\<not> well_formed_hex ''FFA50''"
  by (simp add: well_formed_hex_code match_hex_def)

lemma well_formed_ffa500: "well_formed_hex ''#ffa500''"
  by (simp add: well_formed_hex_code match_hex_def is_hex_digit_def)

lemma hexToRgb_ffa500: "hexToRgb ''#ffa500'' = Inr \<lparr>rgb_r = 255, rgb_g = 165, rgb_b = 0\<rparr>"
  by (simp add: hexToRgb_def match_hex_def is_hex_digit_def parseInt16_def hex_digit_value_def)

theorem malformed_hex_rejected_witness:
  "\<not> well_formed_hex ''FFA50''
   \<and> hexToRgb ''FFA50'' = Inl (Error ''Invalid hex color: FFA50'')
   \<and> findNearestColorName ''FFA50'' = None
   \<and> well_formed_hex ''#ffa500''
   \<and> hexToRgb ''#ffa500'' = Inr \<lparr>rgb_r = 255, rgb_g = 165, rgb_b = 0\<rparr>
   \<and> findNearestColorName ''#ffa500'' \<noteq> None"
  using malformed_hex_rejected [of "''FFA50''"] malformed_hex_rejected [of "''#ffa500''"]
    malformed_FFA50 well_formed_ffa500 hexToRgb_ffa500
  by simp

theorem lookup_total_on_well_formed_witness:
  "well_formed_hex ''#ffa500''
   \<and> (\<exists>c. findNearestColorName ''#ffa500'' = Some c \<and> c \<in> set colorNames)"
  using lookup_total_on_well_formed [OF well_formed_ffa500] well_formed_ffa500 by blast

lemma parse_FF0000:
  "match_hex ''FF0000'' = Some (''FF'', ''00'', ''00'')"
  "parseInt16 ''FF'' = 255" "parseInt16 ''00'' = 0"
  by (simp_all add: match_hex_def is_hex_digit_def parseInt16_def hex_digit_value_def)

lemma scan_step_num:
  assumes "0 \<le> d"
  shows "scan_step p (Finite d, Some c) color =
     (if real_of_int (rgb_sq_dist p color) < d\<^sup>2
      then (Finite (sqrt (real_of_int (rgb_sq_dist p color))), Some color)
      else (Finite d, Some c))"
proof -
  have "(sqrt (real_of_int (rgb_sq_dist p color)) < d) = (real_of_int (rgb_sq_dist p color) < d\<^sup>2)"
    using assms rgb_sq_dist_nonneg [of p color] real_sqrt_less_iff [of "real_of_int (rgb_sq_dist p color)" "d\<^sup>2"]
    by simp
  then show ?thesis
    using rgb_sq_dist_nonneg [of p color] by (simp add: scan_step_def Math_sqrt_def)
qed

lemma scan_red:
  "scan_names (255, 0, 0) colorNames =
     (Finite 0, Some \<lparr>cn_name = ''red'', cn_hex = ''#FF0000'', cn_rgb = (255, 0, 0)\<rparr>)"
  by (simp add: scan_names_def colorNames_def scan_step_first scan_step_num rgb_sq_dist_def)

lemma lookup_FF0000:
  "findNearestColorName ''FF0000'' = Some \<lparr>cn_name = ''red'', cn_hex = ''#FF0000'', cn_rgb = (255, 0, 0)\<rparr>"
  by (simp add: findNearestColorName_def parse_FF0000 scan_red)

text \<open>
  C5, as stated, fails: the lookup returns the entry \<open>red\<close> of the reference table and
  nothing else. The object has the properties \<open>name\<close>, \<open>hex\<close> and \<open>rgb\<close>; reading \<open>deltaE\<close>
  or \<open>distance\<close> from it gives \<open>undefined\<close>, not \<open>0.0\<close>.
\<close>

theorem nearest_name_reports_no_distance_counterexample:
  "findNearestColorName ''FF0000'' = Some \<lparr>cn_name = ''red'', cn_hex = ''#FF0000'', cn_rgb = (255, 0, 0)\<rparr>
   \<and> ColorName_property \<lparr>cn_name = ''red'', cn_hex = ''#FF0000'', cn_rgb = (255, 0, 0)\<rparr> ''deltaE'' = None
   \<and> ColorName_property \<lparr>cn_name = ''red'', cn_hex = ''#FF0000'', cn_rgb = (255, 0, 0)\<rparr> ''distance'' = None"
  by (simp add: lookup_FF0000 ColorName_property_def)

text \<open>
  C5, as amended. \<open>FF0000\<close> parses to \<open>(255, 0, 0)\<close>, and the lookup returns the entry of
  the reference table whose \<open>rgb\<close> is that triple and whose \<open>name\<close> is \<open>red\<close>.
\<close>

theorem nearest_name_of_FF0000:
  "hexToRgb ''FF0000'' = Inr \<lparr>rgb_r = 255, rgb_g = 0, rgb_b = 0\<rparr>
   \<and> findNearestColorName ''FF0000'' = Some \<lparr>cn_name = ''red'', cn_hex = ''#FF0000'', cn_rgb = (255, 0, 0)\<rparr>
   \<and> ColorName_property \<lparr>cn_name = ''red'', cn_hex = ''#FF0000'', cn_rgb = (255, 0, 0)\<rparr> ''name''
       = Some (Str ''red'')"
  by (simp add: lookup_FF0000 hexToRgb_def parse_FF0000 ColorName_property_def)

lemma scan_violet:
  "scan_names (128, 0, 255) colorNames =
     (Finite 127, Some \<lparr>cn_name = ''magenta'', cn_hex = ''#FF00FF'', cn_rgb = (255, 0, 255)\<rparr>)"
  by (simp add: scan_names_def colorNames_def scan_step_first scan_step_num rgb_sq_dist_def)

subsection \<open>Bounds on the conversion to Lab\<close>

lemma rgbToLab_stages:
  "rgbToLab r g b =
     \<lparr>lab_l = 116 * lab_f (xyz_y (srgb_linear r) (srgb_linear g) (srgb_linear b)) - 16,
      lab_a = 500 * (lab_f (xyz_x (srgb_linear r) (srgb_linear g) (srgb_linear b))
                     - lab_f (xyz_y (srgb_linear r) (srgb_linear g) (srgb_linear b))),
      lab_b = 200 * (lab_f (xyz_y (srgb_linear r) (srgb_linear g) (srgb_linear b))
                     - lab_f (xyz_z (srgb_linear r) (srgb_linear g) (srgb_linear b)))\<rparr>"
  unfolding rgbToLab_def Let_def srgb_linear_def lab_f_def xyz_x_def xyz_y_def xyz_z_def
  by (rule refl)

lemma cube_root_powr: "0 < t \<Longrightarrow> t powr (1 / 3) = root 3 t"
  by (simp add: root_powr_inverse)

lemma lab_f_bounds:
  fixes t t0 t1 lo hi :: real
  assumes "0.008856 < t0" "t0 \<le> t" "t \<le> t1" "0 \<le> lo" "lo ^ 3 \<le> t0" "t1 \<le> hi ^ 3" "0 \<le> hi"
  shows "lo \<le> lab_f t \<and> lab_f t \<le> hi"
proof
  have t: "0.008856 < t" "0 < t" using assms(1,2) by simp_all
  then have f: "lab_f t = root 3 t" by (simp add: lab_f_def cube_root_powr)
  have "root 3 (lo ^ 3) \<le> root 3 t" using assms by (simp only: real_root_le_iff zero_less_numeral) 
  then show "lo \<le> lab_f t" using assms(4) by (simp add: f real_root_power_cancel)
  have "root 3 t \<le> root 3 (hi ^ 3)" using assms by (simp only: real_root_le_iff zero_less_numeral) 
  then show "lab_f t \<le> hi" using assms(7) by (simp add: f real_root_power_cancel)
qed

lemma powr_12_5: 
  assumes "0 < v" shows "v powr 2.4 = root 5 (v ^ 12)"
proof -
  have "v powr 2.4 = (v powr 12) powr (1 / 5)" by (simp add: powr_powr)
  also have "v powr 12 = v ^ 12" using assms by (simp add: powr_numeral)
  also have "(v ^ 12) powr (1 / 5) = root 5 (v ^ 12)"
    using assms by (simp add: root_powr_inverse)
  finally show ?thesis .
qed

lemma srgb_linear_bounds:
  assumes "0.04045 < c / 255" "0 \<le> lo" "lo ^ 5 \<le> ((c / 255 + 0.055) / 1.055) ^ 12"
    "((c / 255 + 0.055) / 1.055) ^ 12 \<le> hi ^ 5" "0 \<le> hi"
  shows "lo \<le> srgb_linear c \<and> srgb_linear c \<le> hi"
proof
  let ?v = "(c / 255 + 0.055) / 1.055"
  have v: "0 < ?v" using assms(1) by simp
  have f: "srgb_linear c = root 5 (?v ^ 12)"
    using assms(1) powr_12_5 [OF v] by (simp add: srgb_linear_def)
  have "root 5 (lo ^ 5) \<le> root 5 (?v ^ 12)" using assms(3) by (simp only: real_root_le_iff zero_less_numeral)
  then show "lo \<le> srgb_linear c" using assms(2) by (simp add: f real_root_power_cancel)
  have "root 5 (?v ^ 12) \<le> root 5 (hi ^ 5)" using assms(4) by (simp only: real_root_le_iff zero_less_numeral)
  then show "srgb_linear c \<le> hi" using assms(5) by (simp add: f real_root_power_cancel)
qed

lemma lab_violet_bounds:
  "40.909 \<le> lab_l (rgbToLab 128 0 255) \<and> lab_l (rgbToLab 128 0 255) \<le> 40.91 \<and>
    83.167 \<le> lab_a (rgbToLab 128 0 255) \<and> lab_a (rgbToLab 128 0 255) \<le> 83.169 \<and>
    - 93.291 \<le> lab_b (rgbToLab 128 0 255) \<and> lab_b (rgbToLab 128 0 255) \<le> - 93.289"
proof -
  have c128: "0.2158605 \<le> srgb_linear 128 \<and> srgb_linear 128 \<le> 0.2158606"
    by (rule srgb_linear_bounds) (simp_all add: power_divide)
  have c0: "srgb_linear 0 = 0" by (simp add: srgb_linear_def)
  have c255: "srgb_linear 255 = 1" by (simp add: srgb_linear_def)
  have x: "0.2835129 \<le> xyz_x (srgb_linear 128) (srgb_linear 0) (srgb_linear 255) \<and> xyz_x (srgb_linear 128) (srgb_linear 0) (srgb_linear 255) \<le> 0.283513"
    using c128 c0 c255 by (simp add: xyz_x_def)
  have fx: "0.656937 \<le> lab_f (xyz_x (srgb_linear 128) (srgb_linear 0) (srgb_linear 255)) \<and> lab_f (xyz_x (srgb_linear 128) (srgb_linear 0) (srgb_linear 255)) \<le> 0.656938"
    by (rule lab_f_bounds [OF _ conjunct1 [OF x] conjunct2 [OF x]]) (simp_all add: power_divide)
  have y: "0.1180826 \<le> xyz_y (srgb_linear 128) (srgb_linear 0) (srgb_linear 255) \<and> xyz_y (srgb_linear 128) (srgb_linear 0) (srgb_linear 255) \<le> 0.1180827"
    using c128 c0 c255 by (simp add: xyz_y_def)
  have fy: "0.490601 \<le> lab_f (xyz_y (srgb_linear 128) (srgb_linear 0) (srgb_linear 255)) \<and> lab_f (xyz_y (srgb_linear 128) (srgb_linear 0) (srgb_linear 255)) \<le> 0.490602"
    by (rule lab_f_bounds [OF _ conjunct1 [OF y] conjunct2 [OF y]]) (simp_all add: power_divide)
  have z: "0.8766084 \<le> xyz_z (srgb_linear 128) (srgb_linear 0) (srgb_linear 255) \<and> xyz_z (srgb_linear 128) (srgb_linear 0) (srgb_linear 255) \<le> 0.8766085"
    using c128 c0 c255 by (simp add: xyz_z_def)
  have fz: "0.957051 \<le> lab_f (xyz_z (srgb_linear 128) (srgb_linear 0) (srgb_linear 255)) \<and> lab_f (xyz_z (srgb_linear 128) (srgb_linear 0) (srgb_linear 255)) \<le> 0.957052"
    by (rule lab_f_bounds [OF _ conjunct1 [OF z] conjunct2 [OF z]]) (simp_all add: power_divide)
  show ?thesis
    using fx fy fz by (simp add: rgbToLab_stages)
qed

lemma lab_blue_bounds:
  "32.296 \<le> lab_l (rgbToLab 0 0 255) \<and> lab_l (rgbToLab 0 0 255) \<le> 32.298 \<and>
    79.187 \<le> lab_a (rgbToLab 0 0 255) \<and> lab_a (rgbToLab 0 0 255) \<le> 79.188 \<and>
    - 107.861 \<le> lab_b (rgbToLab 0 0 255) \<and> lab_b (rgbToLab 0 0 255) \<le> - 107.86"
proof -
  have c0: "srgb_linear 0 = 0" by (simp add: srgb_linear_def)
  have c255: "srgb_linear 255 = 1" by (simp add: srgb_linear_def)
  have x: "0.1898402 \<le> xyz_x (srgb_linear 0) (srgb_linear 0) (srgb_linear 255) \<and> xyz_x (srgb_linear 0) (srgb_linear 0) (srgb_linear 255) \<le> 0.1898403"
    using c0 c255 by (simp add: xyz_x_def)
  have fx: "0.574728 \<le> lab_f (xyz_x (srgb_linear 0) (srgb_linear 0) (srgb_linear 255)) \<and> lab_f (xyz_x (srgb_linear 0) (srgb_linear 0) (srgb_linear 255)) \<le> 0.574729"
    by (rule lab_f_bounds [OF _ conjunct1 [OF x] conjunct2 [OF x]]) (simp_all add: power_divide)
  have y: "0.072175 \<le> xyz_y (srgb_linear 0) (srgb_linear 0) (srgb_linear 255) \<and> xyz_y (srgb_linear 0) (srgb_linear 0) (srgb_linear 255) \<le> 0.072175"
    using c0 c255 by (simp add: xyz_y_def)
  have fy: "0.416353 \<le> lab_f (xyz_y (srgb_linear 0) (srgb_linear 0) (srgb_linear 255)) \<and> lab_f (xyz_y (srgb_linear 0) (srgb_linear 0) (srgb_linear 255)) \<le> 0.416354"
    by (rule lab_f_bounds [OF _ conjunct1 [OF y] conjunct2 [OF y]]) (simp_all add: power_divide)
  have z: "0.8727754 \<le> xyz_z (srgb_linear 0) (srgb_linear 0) (srgb_linear 255) \<and> xyz_z (srgb_linear 0) (srgb_linear 0) (srgb_linear 255) \<le> 0.8727755"
    using c0 c255 by (simp add: xyz_z_def)
  have fz: "0.955654 \<le> lab_f (xyz_z (srgb_linear 0) (srgb_linear 0) (srgb_linear 255)) \<and> lab_f (xyz_z (srgb_linear 0) (srgb_linear 0) (srgb_linear 255)) \<le> 0.955655"
    by (rule lab_f_bounds [OF _ conjunct1 [OF z] conjunct2 [OF z]]) (simp_all add: power_divide)
  show ?thesis
    using fx fy fz by (simp add: rgbToLab_stages)
qed

lemma lab_magenta_bounds:
  "60.324 \<le> lab_l (rgbToLab 255 0 255) \<and> lab_l (rgbToLab 255 0 255) \<le> 60.325 \<and>
    98.233 \<le> lab_a (rgbToLab 255 0 255) \<and> lab_a (rgbToLab 255 0 255) \<le> 98.235 \<and>
    - 60.825 \<le> lab_b (rgbToLab 255 0 255) \<and> lab_b (rgbToLab 255 0 255) \<le> - 60.824"
proof -
  have c255: "srgb_linear 255 = 1" by (simp add: srgb_linear_def)
  have c0: "srgb_linear 0 = 0" by (simp add: srgb_linear_def)
  have x: "0.6237902 \<le> xyz_x (srgb_linear 255) (srgb_linear 0) (srgb_linear 255) \<and> xyz_x (srgb_linear 255) (srgb_linear 0) (srgb_linear 255) \<le> 0.6237903"
    using c255 c0 by (simp add: xyz_x_def)
  have fx: "0.854435 \<le> lab_f (xyz_x (srgb_linear 255) (srgb_linear 0) (srgb_linear 255)) \<and> lab_f (xyz_x (srgb_linear 255) (srgb_linear 0) (srgb_linear 255)) \<le> 0.854437"
    by (rule lab_f_bounds [OF _ conjunct1 [OF x] conjunct2 [OF x]]) (simp_all add: power_divide)
  have y: "0.2848479 \<le> xyz_y (srgb_linear 255) (srgb_linear 0) (srgb_linear 255) \<and> xyz_y (srgb_linear 255) (srgb_linear 0) (srgb_linear 255) \<le> 0.2848479"
    using c255 c0 by (simp add: xyz_y_def)
  have fy: "0.657967 \<le> lab_f (xyz_y (srgb_linear 255) (srgb_linear 0) (srgb_linear 255)) \<and> lab_f (xyz_y (srgb_linear 255) (srgb_linear 0) (srgb_linear 255)) \<le> 0.657968"
    by (rule lab_f_bounds [OF _ conjunct1 [OF y] conjunct2 [OF y]]) (simp_all add: power_divide)
  have z: "0.890532 \<le> xyz_z (srgb_linear 255) (srgb_linear 0) (srgb_linear 255) \<and> xyz_z (srgb_linear 255) (srgb_linear 0) (srgb_linear 255) \<le> 0.8905321"
    using c255 c0 by (simp add: xyz_z_def)
  have fz: "0.962091 \<le> lab_f (xyz_z (srgb_linear 255) (srgb_linear 0) (srgb_linear 255)) \<and> lab_f (xyz_z (srgb_linear 255) (srgb_linear 0) (srgb_linear 255)) \<le> 0.962092"
    by (rule lab_f_bounds [OF _ conjunct1 [OF z] conjunct2 [OF z]]) (simp_all add: power_divide)
  show ?thesis
    using fx fy fz by (simp add: rgbToLab_stages)
qed

lemma lab_red_bounds:
  "53.24 \<le> lab_l (rgbToLab 255 0 0) \<and> lab_l (rgbToLab 255 0 0) \<le> 53.241 \<and>
    80.092 \<le> lab_a (rgbToLab 255 0 0) \<and> lab_a (rgbToLab 255 0 0) \<le> 80.093 \<and>
    67.203 \<le> lab_b (rgbToLab 255 0 0) \<and> lab_b (rgbToLab 255 0 0) \<le> 67.204"
proof -
  have c255: "srgb_linear 255 = 1" by (simp add: srgb_linear_def)
  have c0: "srgb_linear 0 = 0" by (simp add: srgb_linear_def)
  have x: "0.4339499 \<le> xyz_x (srgb_linear 255) (srgb_linear 0) (srgb_linear 0) \<and> xyz_x (srgb_linear 255) (srgb_linear 0) (srgb_linear 0) \<le> 0.43395"
    using c255 c0 by (simp add: xyz_x_def)
  have fx: "0.757088 \<le> lab_f (xyz_x (srgb_linear 255) (srgb_linear 0) (srgb_linear 0)) \<and> lab_f (xyz_x (srgb_linear 255) (srgb_linear 0) (srgb_linear 0)) \<le> 0.757089"
    by (rule lab_f_bounds [OF _ conjunct1 [OF x] conjunct2 [OF x]]) (simp_all add: power_divide)
  have y: "0.2126729 \<le> xyz_y (srgb_linear 255) (srgb_linear 0) (srgb_linear 0) \<and> xyz_y (srgb_linear 255) (srgb_linear 0) (srgb_linear 0) \<le> 0.2126729"
    using c255 c0 by (simp add: xyz_y_def)
  have fy: "0.596903 \<le> lab_f (xyz_y (srgb_linear 255) (srgb_linear 0) (srgb_linear 0)) \<and> lab_f (xyz_y (srgb_linear 255) (srgb_linear 0) (srgb_linear 0)) \<le> 0.596904"
    by (rule lab_f_bounds [OF _ conjunct1 [OF y] conjunct2 [OF y]]) (simp_all add: power_divide)
  have z: "0.0177565 \<le> xyz_z (srgb_linear 255) (srgb_linear 0) (srgb_linear 0) \<and> xyz_z (srgb_linear 255) (srgb_linear 0) (srgb_linear 0) \<le> 0.0177566"
    using c255 c0 by (simp add: xyz_z_def)
  have fz: "0.260887 \<le> lab_f (xyz_z (srgb_linear 255) (srgb_linear 0) (srgb_linear 0)) \<and> lab_f (xyz_z (srgb_linear 255) (srgb_linear 0) (srgb_linear 0)) \<le> 0.260888"
    by (rule lab_f_bounds [OF _ conjunct1 [OF z] conjunct2 [OF z]]) (simp_all add: power_divide)
  show ?thesis
    using fx fy fz by (simp add: rgbToLab_stages)
qed

lemma lab_lime_bounds:
  "87.734 \<le> lab_l (rgbToLab 0 255 0) \<and> lab_l (rgbToLab 0 255 0) \<le> 87.735 \<and>
    - 86.183 \<le> lab_a (rgbToLab 0 255 0) \<and> lab_a (rgbToLab 0 255 0) \<le> - 86.182 \<and>
    83.179 \<le> lab_b (rgbToLab 0 255 0) \<and> lab_b (rgbToLab 0 255 0) \<le> 83.18"
proof -
  have c0: "srgb_linear 0 = 0" by (simp add: srgb_linear_def)
  have c255: "srgb_linear 255 = 1" by (simp add: srgb_linear_def)
  have x: "0.3762097 \<le> xyz_x (srgb_linear 0) (srgb_linear 255) (srgb_linear 0) \<and> xyz_x (srgb_linear 0) (srgb_linear 255) (srgb_linear 0) \<le> 0.3762098"
    using c0 c255 by (simp add: xyz_x_def)
  have fx: "0.721899 \<le> lab_f (xyz_x (srgb_linear 0) (srgb_linear 255) (srgb_linear 0)) \<and> lab_f (xyz_x (srgb_linear 0) (srgb_linear 255) (srgb_linear 0)) \<le> 0.7219"
    by (rule lab_f_bounds [OF _ conjunct1 [OF x] conjunct2 [OF x]]) (simp_all add: power_divide)
  have y: "0.7151522 \<le> xyz_y (srgb_linear 0) (srgb_linear 255) (srgb_linear 0) \<and> xyz_y (srgb_linear 0) (srgb_linear 255) (srgb_linear 0) \<le> 0.7151522"
    using c0 c255 by (simp add: xyz_y_def)
  have fy: "0.894264 \<le> lab_f (xyz_y (srgb_linear 0) (srgb_linear 255) (srgb_linear 0)) \<and> lab_f (xyz_y (srgb_linear 0) (srgb_linear 255) (srgb_linear 0)) \<le> 0.894265"
    by (rule lab_f_bounds [OF _ conjunct1 [OF y] conjunct2 [OF y]]) (simp_all add: power_divide)
  have z: "0.1094679 \<le> xyz_z (srgb_linear 0) (srgb_linear 255) (srgb_linear 0) \<and> xyz_z (srgb_linear 0) (srgb_linear 255) (srgb_linear 0) \<le> 0.109468"
    using c0 c255 by (simp add: xyz_z_def)
  have fz: "0.478368 \<le> lab_f (xyz_z (srgb_linear 0) (srgb_linear 255) (srgb_linear 0)) \<and> lab_f (xyz_z (srgb_linear 0) (srgb_linear 255) (srgb_linear 0)) \<le> 0.478369"
    by (rule lab_f_bounds [OF _ conjunct1 [OF z] conjunct2 [OF z]]) (simp_all add: power_divide)
  show ?thesis
    using fx fy fz by (simp add: rgbToLab_stages)
qed

subsection \<open>What the lookup minimises\<close>

lemma parse_8000FF:
  "match_hex ''8000FF'' = Some (''80'', ''00'', ''FF'')"
  "parseInt16 ''80'' = 128"
  by (simp_all add: match_hex_def is_hex_digit_def parseInt16_def hex_digit_value_def)

text \<open>
  C1, as amended. For every well-formed colour string the lookup scans the whole
  reference table and returns the entry whose Euclidean distance to the input in RGB is
  minimal, the first such entry in table order.
\<close>

theorem nearest_name_minimises_rgb_distance:
  assumes "hexToRgb hex = Inr rgb"
  shows "\<exists>i<length colorNames.
           findNearestColorName hex = Some (colorNames ! i)
         \<and> (\<forall>j<length colorNames.
               sqrt (real_of_int (rgb_sq_dist (rgb_r rgb, rgb_g rgb, rgb_b rgb) (colorNames ! i)))
             \<le> sqrt (real_of_int (rgb_sq_dist (rgb_r rgb, rgb_g rgb, rgb_b rgb) (colorNames ! j))))
         \<and> (\<forall>j<i.
               sqrt (real_of_int (rgb_sq_dist (rgb_r rgb, rgb_g rgb, rgb_b rgb) (colorNames ! i)))
             < sqrt (real_of_int (rgb_sq_dist (rgb_r rgb, rgb_g rgb, rgb_b rgb) (colorNames ! j))))"
proof -
  from assms obtain g1 g2 g3 where m: "match_hex hex = Some (g1, g2, g3)"
    and rgb: "rgb = \<lparr>rgb_r = parseInt16 g1, rgb_g = parseInt16 g2, rgb_b = parseInt16 g3\<rparr>"
    by (auto simp: hexToRgb_def split: option.splits)
  let ?p = "(parseInt16 g1, parseInt16 g2, parseInt16 g3)"
  have ne: "colorNames \<noteq> []" by (simp add: colorNames_def)
  from scan_names_first_minimum [OF ne, of ?p] obtain i where i: "i < length colorNames"
    and res: "scan_names ?p colorNames
                = (Finite (sqrt (real_of_int (rgb_sq_dist ?p (colorNames ! i)))), Some (colorNames ! i))"
    and least: "\<forall>j<length colorNames. rgb_sq_dist ?p (colorNames ! i) \<le> rgb_sq_dist ?p (colorNames ! j)"
    and first: "\<forall>j<i. rgb_sq_dist ?p (colorNames ! i) < rgb_sq_dist ?p (colorNames ! j)"
    by blast
  have "findNearestColorName hex = Some (colorNames ! i)"
    by (simp add: findNearestColorName_def m res)
  with i least first show ?thesis
    unfolding rgb by (intro exI [of _ i]) simp
qed

theorem nearest_name_minimises_rgb_distance_witness:
  "hexToRgb ''8000FF'' = Inr \<lparr>rgb_r = 128, rgb_g = 0, rgb_b = 255\<rparr>
   \<and> (\<exists>i<length colorNames.
           findNearestColorName ''8000FF'' = Some (colorNames ! i)
         \<and> (\<forall>j<length colorNames.
               sqrt (real_of_int (rgb_sq_dist (128, 0, 255) (colorNames ! i)))
             \<le> sqrt (real_of_int (rgb_sq_dist (128, 0, 255) (colorNames ! j))))
         \<and> (\<forall>j<i.
               sqrt (real_of_int (rgb_sq_dist (128, 0, 255) (colorNames ! i)))
             < sqrt (real_of_int (rgb_sq_dist (128, 0, 255) (colorNames ! j)))))"
proof -
  have h: "hexToRgb ''8000FF'' = Inr \<lparr>rgb_r = 128, rgb_g = 0, rgb_b = 255\<rparr>"
    by (simp add: hexToRgb_def parse_8000FF parse_FF0000)
  from nearest_name_minimises_rgb_distance [OF h] h show ?thesis by simp
qed

subsection \<open>The conversion to Lab follows its specification\<close>

lemma srgb_linear_decoded: "srgb_gamma_decoded (c / 255) (srgb_linear c)"
  by (simp add: srgb_gamma_decoded_def srgb_linear_def)

lemma lab_f_curve: "lab_curve_value t (lab_f t)"
  by (simp add: lab_curve_value_def lab_f_def cube_root_powr)

text \<open>
  C3. \<open>rgbToLab\<close> is a function of its three channels, and its result is the one the
  specification describes: each channel divided by 255 and decoded (divided by 12.92
  below the threshold 0.04045, \<open>((c + 0.055) / 1.055)\<close> to the power 2.4 above), the
  three XYZ coordinates by the fixed D65 matrix, and Lab from the curve that is the cube
  root above the breakpoint 0.008856 and linear below it.
\<close>

theorem rgbToLab_follows_spec: "spec_rgbToLab r g b (rgbToLab r g b)"
  unfolding spec_rgbToLab_def
  by (intro exI [of _ "srgb_linear r"] exI [of _ "srgb_linear g"] exI [of _ "srgb_linear b"]
        exI [of _ "lab_f (xyz_x (srgb_linear r) (srgb_linear g) (srgb_linear b))"]
        exI [of _ "lab_f (xyz_y (srgb_linear r) (srgb_linear g) (srgb_linear b))"]
        exI [of _ "lab_f (xyz_z (srgb_linear r) (srgb_linear g) (srgb_linear b))"])
     (simp add: srgb_linear_decoded lab_f_curve rgbToLab_stages)

lemma rgbToLab_black: "rgbToLab 0 0 0 = \<lparr>lab_l = 0, lab_a = 0, lab_b = 0\<rparr>"
  by (simp add: rgbToLab_stages srgb_linear_def xyz_x_def xyz_y_def xyz_z_def lab_f_def)

theorem rgbToLab_follows_spec_witness:
  "spec_rgbToLab 0 0 0 \<lparr>lab_l = 0, lab_a = 0, lab_b = 0\<rparr>
   \<and> spec_rgbToLab 255 0 0 (rgbToLab 255 0 0)
   \<and> 53.24 \<le> lab_l (rgbToLab 255 0 0) \<and> lab_l (rgbToLab 255 0 0) \<le> 53.241"
  using rgbToLab_follows_spec [of 0 0 0] rgbToLab_follows_spec [of 255 0 0] lab_red_bounds
  by (simp add: rgbToLab_black)

subsection \<open>The rounding of double arithmetic\<close>

lemma pow2_powi: "pow2 e = 2 powi e"
  by (simp add: pow2_def power_int_def field_simps)

lemma pow2_pos: "0 < pow2 e"
  by (simp add: pow2_def)

lemma pow2_add: "pow2 (a + b) = pow2 a * pow2 b"
  by (simp add: pow2_powi power_int_add)

lemma pow2_mono: "a \<le> b \<Longrightarrow> pow2 a \<le> pow2 b"
  by (simp add: pow2_powi power_int_increasing)

lemma pow2_nat: "pow2 (int n) = 2 ^ n"
  by (simp add: pow2_def)

lemma ilog2_bounds: "0 < n \<Longrightarrow> 2 ^ ilog2 n \<le> n \<and> n < 2 * 2 ^ ilog2 n"
proof (induction n rule: ilog2.induct)
  case (1 n)
  show ?case
  proof (cases "n < 2")
    case True
    with "1.prems" have "n = 1" by simp
    then show ?thesis by (simp add: ilog2.simps)
  next
    case False
    then have "0 < n div 2" by simp
    with "1.IH" [OF False] have ih: "2 ^ ilog2 (n div 2) \<le> n div 2" "n div 2 < 2 * 2 ^ ilog2 (n div 2)"
      by simp_all
    have eq: "ilog2 n = Suc (ilog2 (n div 2))"
      using False by (subst ilog2.simps) simp
    show ?thesis
      unfolding eq using ih by simp arith
  qed
qed

lemma exponent_of_bounds:
  assumes "x \<noteq> 0"
  shows "pow2 (exponent_of x) \<le> \<bar>x\<bar> \<and> \<bar>x\<bar> < 2 * pow2 (exponent_of x)"
proof (cases "1 \<le> \<bar>x\<bar>")
  case True
  define n where "n = nat \<lfloor>\<bar>x\<bar>\<rfloor>"
  have n: "0 < n" using True by (simp add: n_def)
  have e: "exponent_of x = int (ilog2 n)" using True by (simp add: exponent_of_def n_def)
  from ilog2_bounds [OF n] have b: "2 ^ ilog2 n \<le> n" "n + 1 \<le> 2 * 2 ^ ilog2 n" by simp_all
  have "real n \<le> \<bar>x\<bar>" "\<bar>x\<bar> < real n + 1"
    using True by (simp_all add: n_def)
  moreover have "(2::real) ^ ilog2 n \<le> real n" "real n + 1 \<le> 2 * 2 ^ ilog2 n"
    using of_nat_mono [OF b(1), where 'a = real] of_nat_mono [OF b(2), where 'a = real] by simp_all
  ultimately show ?thesis unfolding e pow2_nat by linarith
next
  case False
  define y where "y = 1 / \<bar>x\<bar>"
  have x: "0 < \<bar>x\<bar>" "\<bar>x\<bar> < 1" using assms False by simp_all
  then have y: "1 < y" by (simp add: y_def)
  define n where "n = nat (\<lceil>y\<rceil> - 1)"
  have c: "2 \<le> \<lceil>y\<rceil>" using y by linarith
  then have n: "0 < n" by (simp add: n_def)
  have e: "exponent_of x = - int (ilog2 n) - 1"
    using False by (simp add: exponent_of_def n_def y_def)
  from ilog2_bounds [OF n] have b: "2 ^ ilog2 n \<le> n" "n + 1 \<le> 2 * 2 ^ ilog2 n" by simp_all
  have rb: "(2::real) ^ ilog2 n \<le> real n" "real n + 1 \<le> 2 * 2 ^ ilog2 n"
    using of_nat_mono [OF b(1), where 'a = real] of_nat_mono [OF b(2), where 'a = real] by simp_all
  have ny: "real n < y" "y \<le> real n + 1"
    using c by (simp_all add: n_def) linarith+
  have p: "pow2 (- int (ilog2 n) - 1) = 1 / (2 * 2 ^ ilog2 n)"
    by (simp add: pow2_def nat_add_distrib)
  have lo: "(2::real) ^ ilog2 n < y" and hi: "y \<le> 2 * 2 ^ ilog2 n"
    using ny rb by linarith+
  have "1 / (2 * 2 ^ ilog2 n) \<le> 1 / y"
    using hi y by (intro divide_left_mono) simp_all
  moreover have "1 / y < 1 / 2 ^ ilog2 n"
    using lo y by (intro divide_strict_left_mono) simp_all
  moreover have "1 / y = \<bar>x\<bar>" using x by (simp add: y_def)
  ultimately show ?thesis unfolding e p by simp
qed

lemma round_half_even_error: "\<bar>real_of_int (round_half_even y) - y\<bar> \<le> 1 / 2"
  unfolding round_half_even_def Let_def by (auto; linarith)

lemma round_half_even_nonneg: "0 \<le> y \<Longrightarrow> 0 \<le> round_half_even y"
  unfolding round_half_even_def Let_def by auto

lemma fl_zero: "fl 0 = 0"
  by (simp add: fl_def)

lemma fl_nonneg: "0 \<le> x \<Longrightarrow> 0 \<le> fl x"
  using pow2_pos [of "exponent_of x - 52"]
  by (auto simp: fl_def Let_def intro!: mult_nonneg_nonneg round_half_even_nonneg)

lemma fl_error: "\<bar>fl x - x\<bar> \<le> \<bar>x\<bar> / 2 ^ 53"
proof (cases "x = 0")
  case True
  then show ?thesis by (simp add: fl_zero)
next
  case False
  define u where "u = pow2 (exponent_of x - 52)"
  define m where "m = round_half_even (x / u)"
  have u: "0 < u" by (simp add: u_def pow2_pos)
  have "pow2 (exponent_of x) = pow2 ((exponent_of x - 52) + 52)" by simp
  also have "\<dots> = u * 2 ^ 52" unfolding pow2_add u_def by (simp add: pow2_def)
  finally have ux: "u * 2 ^ 52 \<le> \<bar>x\<bar>" using exponent_of_bounds [OF False] by simp
  have "fl x = real_of_int m * u" using False by (simp add: fl_def u_def m_def Let_def)
  then have "fl x - x = u * (real_of_int m - x / u)"
    using u by (simp add: field_simps)
  then have "\<bar>fl x - x\<bar> = u * \<bar>real_of_int m - x / u\<bar>"
    using u by (simp add: abs_mult)
  also have "\<dots> \<le> u * (1 / 2)"
    using u round_half_even_error [of "x / u"] unfolding m_def by (intro mult_left_mono) simp_all
  also have "\<dots> \<le> \<bar>x\<bar> / 2 ^ 53" using ux by simp
  finally show ?thesis .
qed

lemma isqrt_bounds: "isqrt n * isqrt n \<le> n \<and> n < (isqrt n + 1) * (isqrt n + 1)"
proof (induction n rule: isqrt.induct)
  case (1 n)
  show ?case
  proof (cases "n < 2")
    case True
    then have eq: "isqrt n = n" by (subst isqrt.simps) simp
    from True have "n = 0 \<or> n = 1" by arith
    then show ?thesis unfolding eq by auto
  next
    case False
    define q where "q = isqrt (n div 4)"
    from "1.IH" [OF False] have ih: "q * q \<le> n div 4" "n div 4 < (q + 1) * (q + 1)"
      by (simp_all add: q_def)
    have eq: "isqrt n = (if (2 * q + 1) * (2 * q + 1) \<le> n then 2 * q + 1 else 2 * q)"
      using False by (subst isqrt.simps) (simp add: Let_def q_def)
    have lo: "4 * (q * q) \<le> n" using ih(1) by arith
    have hi: "n < 4 * ((q + 1) * (q + 1))" using ih(2) by arith
    show ?thesis
    proof (cases "(2 * q + 1) * (2 * q + 1) \<le> n")
      case True
      then show ?thesis using hi by (simp add: eq algebra_simps)
    next
      case False
      then show ?thesis using lo by (simp add: eq algebra_simps)
    qed
  qed
qed

lemma round_half_even_neg: "round_half_even (- y) = - round_half_even y"
proof (cases "y = real_of_int \<lfloor>y\<rfloor>")
  case True
  then have "- y = real_of_int (- \<lfloor>y\<rfloor>)" by simp
  then have "\<lfloor>- y\<rfloor> = - \<lfloor>y\<rfloor>" by (metis floor_of_int)
  then show ?thesis using True by (simp add: round_half_even_def)
next
  case False
  then have f: "\<lfloor>- y\<rfloor> = - \<lfloor>y\<rfloor> - 1"
    by (simp add: floor_minus ceiling_altdef)
  define d where "d = y - real_of_int \<lfloor>y\<rfloor>"
  have d: "0 < d" "d < 1" using False unfolding d_def by linarith+
  have d': "- y - real_of_int (- \<lfloor>y\<rfloor> - 1) = 1 - d" by (simp add: d_def)
  have r: "round_half_even y =
      (if d < 1 / 2 then \<lfloor>y\<rfloor> else if 1 / 2 < d then \<lfloor>y\<rfloor> + 1
       else if even \<lfloor>y\<rfloor> then \<lfloor>y\<rfloor> else \<lfloor>y\<rfloor> + 1)"
    by (simp add: round_half_even_def d_def Let_def)
  have r': "round_half_even (- y) =
      (if 1 - d < 1 / 2 then - \<lfloor>y\<rfloor> - 1 else if 1 / 2 < 1 - d then - \<lfloor>y\<rfloor>
       else if even (- \<lfloor>y\<rfloor> - 1) then - \<lfloor>y\<rfloor> - 1 else - \<lfloor>y\<rfloor>)"
    unfolding round_half_even_def Let_def f d' by simp
  consider "d < 1 / 2" | "d = 1 / 2" | "1 / 2 < d" by linarith
  then show ?thesis
  proof cases
    case 1
    then show ?thesis unfolding r r' by simp
  next
    case 2
    then show ?thesis unfolding r r' by simp
  next
    case 3
    then show ?thesis unfolding r r' by simp
  qed
qed

lemma exponent_of_neg: "exponent_of (- x) = exponent_of x"
  by (simp add: exponent_of_def)

lemma fl_neg: "fl (- x) = - fl x"
  by (simp add: fl_def exponent_of_neg round_half_even_neg Let_def)

lemma fl_sqrt_error:
  assumes "0 \<le> x"
  shows "\<exists>d. fl_sqrt x = Some d \<and> \<bar>d - sqrt x\<bar> \<le> sqrt x / 2 ^ 53"
proof (cases "x = 0")
  case True
  then show ?thesis by (simp add: fl_sqrt_def)
next
  case False
  with assms have x: "0 < x" by simp
  define E where "E = exponent_of x"
  define e where "e = (E - 104) div 2"
  define p where "p = pow2 e"
  define s where "s = x / (p * p)"
  define r where "r = isqrt (nat \<lfloor>4 * s\<rfloor>)"
  define m where "m = (int r + 1) div 2"
  have p: "0 < p" by (simp add: p_def pow2_pos)
  have s0: "0 < s" using x p by (simp add: s_def)
  have val: "fl_sqrt x = Some (real_of_int m * p)"
    using x unfolding fl_sqrt_def Let_def m_def r_def s_def p_def e_def E_def by simp
  have "2 * e \<le> E - 104" unfolding e_def by simp
  then have "pow2 (2 * e + 104) \<le> pow2 E" by (intro pow2_mono) simp
  also have "pow2 (2 * e + 104) = p * p * 2 ^ 104"
  proof -
    have "pow2 (2 * e + 104) = pow2 e * pow2 e * pow2 104"
      by (simp only: mult_2 pow2_add)
    moreover have "pow2 104 = 2 ^ 104" by (simp add: pow2_def)
    ultimately show ?thesis by (simp add: p_def)
  qed
  also have "pow2 E \<le> x" using exponent_of_bounds [of x] x by (simp add: E_def)
  finally have s104: "2 ^ 104 \<le> s" using p by (simp add: s_def pos_le_divide_eq mult.commute)
  have "(2 ^ 52)\<^sup>2 \<le> s" using s104 by simp
  then have rs: "2 ^ 52 \<le> sqrt s" by (rule real_le_rsqrt)
  define t where "t = 2 * sqrt s"
  have t4: "t * t = 4 * s" using s0 by (simp add: t_def)
  have t0: "0 \<le> t" using s0 by (simp add: t_def)
  define k where "k = nat \<lfloor>4 * s\<rfloor>"
  have k: "real k \<le> 4 * s" "4 * s < real k + 1"
    using s0 unfolding k_def by linarith+
  from isqrt_bounds [of k] have rb: "r * r \<le> k" "k + 1 \<le> (r + 1) * (r + 1)"
    by (simp_all add: r_def k_def)
  have "real r * real r \<le> real k" using of_nat_mono [OF rb(1), where 'a = real] by simp
  with k have "(real r)\<^sup>2 \<le> t\<^sup>2" unfolding power2_eq_square t4 by linarith
  then have rt: "real r \<le> t" using t0 by (rule power2_le_imp_le)
  have "real k + 1 \<le> (real r + 1) * (real r + 1)"
    using of_nat_mono [OF rb(2), where 'a = real] by (simp add: algebra_simps)
  with k have "t\<^sup>2 < (real r + 1)\<^sup>2" unfolding power2_eq_square t4 by linarith
  then have tr: "t < real r + 1" by (rule power2_less_imp_less) simp
  have m2: "2 * m \<le> int r + 1" "int r \<le> 2 * m" unfolding m_def by linarith+
  have mr: "2 * real_of_int m \<le> real r + 1" "real r \<le> 2 * real_of_int m"
    using of_int_le_iff [where 'a = real, THEN iffD2, OF m2(1)]
      of_int_le_iff [where 'a = real, THEN iffD2, OF m2(2)] by simp_all
  have near: "\<bar>real_of_int m - sqrt s\<bar> \<le> 1 / 2"
    using rt tr mr unfolding t_def by linarith
  have "x = s * (p * p)" using p by (simp add: s_def)
  then have sx: "sqrt x = sqrt s * p" using p by (simp add: real_sqrt_mult)
  have "real_of_int m * p - sqrt x = p * (real_of_int m - sqrt s)"
    unfolding sx by (simp add: algebra_simps)
  then have "\<bar>real_of_int m * p - sqrt x\<bar> = p * \<bar>real_of_int m - sqrt s\<bar>"
    using p by (simp add: abs_mult)
  also have "\<dots> \<le> p * (1 / 2)" using p near by (intro mult_left_mono) simp_all
  also have "\<dots> \<le> p * (sqrt s / 2 ^ 53)" using p rs by (intro mult_left_mono) simp_all
  also have "\<dots> = sqrt x / 2 ^ 53" unfolding sx by simp
  finally show ?thesis using val by simp
qed

subsection \<open>Bounds on the rounding error\<close>

lemma fl_close:
  assumes "\<bar>x\<bar> \<le> 1000000"
  shows "\<bar>fl x - x\<bar> \<le> 1 / 10 ^ 9"
proof -
  have "\<bar>fl x - x\<bar> \<le> \<bar>x\<bar> / 2 ^ 53" by (rule fl_error)
  also have "\<dots> \<le> 1000000 / 2 ^ 53" using assms by (simp add: divide_right_mono)
  also have "\<dots> \<le> 1 / 10 ^ 9" by simp
  finally show ?thesis .
qed

lemma fl_within:
  assumes "lo \<le> x \<and> x \<le> hi" "- 1000000 \<le> lo" "hi \<le> 1000000"
    and "l \<le> lo - 1 / 10 ^ 9" "hi + 1 / 10 ^ 9 \<le> h"
  shows "l \<le> fl x \<and> fl x \<le> h"
proof -
  have "\<bar>x\<bar> \<le> 1000000" using assms(1-3) by linarith
  from fl_close [OF this] show ?thesis using assms(1,4,5) by linarith
qed

lemma fl_abs_within:
  assumes "lo \<le> \<bar>x\<bar> \<and> \<bar>x\<bar> \<le> hi" "hi \<le> 1000000"
    and "l \<le> lo - 1 / 10 ^ 9" "hi + 1 / 10 ^ 9 \<le> h"
  shows "l \<le> \<bar>fl x\<bar> \<and> \<bar>fl x\<bar> \<le> h"
proof -
  have "\<bar>x\<bar> \<le> 1000000" using assms(1,2) by linarith
  from fl_close [OF this] show ?thesis using assms(1,3,4) by linarith
qed

lemma fl_add_within:
  assumes "l1 \<le> x \<and> x \<le> h1" "l2 \<le> y \<and> y \<le> h2"
    and "- 1000000 \<le> l1 + l2" "h1 + h2 \<le> 1000000"
    and "l \<le> l1 + l2 - 1 / 10 ^ 9" "h1 + h2 + 1 / 10 ^ 9 \<le> h"
  shows "l \<le> fl (x + y) \<and> fl (x + y) \<le> h"
  by (rule fl_within [where lo = "l1 + l2" and hi = "h1 + h2"]) (use assms in linarith)+

lemma fl_sub_within:
  assumes "l1 \<le> x \<and> x \<le> h1" "l2 \<le> y \<and> y \<le> h2"
    and "- 1000000 \<le> l1 - h2" "h1 - l2 \<le> 1000000"
    and "l \<le> l1 - h2 - 1 / 10 ^ 9" "h1 - l2 + 1 / 10 ^ 9 \<le> h"
  shows "l \<le> fl (x - y) \<and> fl (x - y) \<le> h"
  by (rule fl_within [where lo = "l1 - h2" and hi = "h1 - l2"]) (use assms in linarith)+

lemma sq_abs_bounds:
  fixes x :: real
  assumes "lo \<le> \<bar>x\<bar> \<and> \<bar>x\<bar> \<le> hi" "0 \<le> lo"
  shows "lo * lo \<le> x * x \<and> x * x \<le> hi * hi"
proof -
  have "x * x = \<bar>x\<bar> * \<bar>x\<bar>" by simp
  moreover have "lo * lo \<le> \<bar>x\<bar> * \<bar>x\<bar>" using assms by (intro mult_mono) simp_all
  moreover have "\<bar>x\<bar> * \<bar>x\<bar> \<le> hi * hi" using assms by (intro mult_mono) simp_all
  ultimately show ?thesis by simp
qed

lemma fl_sq_within:
  assumes "lo \<le> \<bar>x\<bar> \<and> \<bar>x\<bar> \<le> hi" "0 \<le> lo" "hi * hi \<le> 1000000"
    and "l \<le> lo * lo - 1 / 10 ^ 9" "hi * hi + 1 / 10 ^ 9 \<le> h"
  shows "l \<le> fl (x * x) \<and> fl (x * x) \<le> h"
proof (rule fl_within [where lo = "lo * lo" and hi = "hi * hi"])
  show "lo * lo \<le> x * x \<and> x * x \<le> hi * hi" using assms(1,2) by (rule sq_abs_bounds)
  show "- 1000000 \<le> lo * lo" using assms(2) by (simp add: order_trans [of _ 0])
qed (use assms in simp_all)

lemma fl_mult_within:
  assumes "l1 \<le> x \<and> x \<le> h1" "l2 \<le> y \<and> y \<le> h2" "0 \<le> l1" "0 \<le> l2"
    and "h1 * h2 \<le> 1000000"
    and "l \<le> l1 * l2 - 1 / 10 ^ 9" "h1 * h2 + 1 / 10 ^ 9 \<le> h"
  shows "l \<le> fl (x * y) \<and> fl (x * y) \<le> h"
proof (rule fl_within [where lo = "l1 * l2" and hi = "h1 * h2"])
  have "l1 * l2 \<le> x * y" using assms(1-4) by (intro mult_mono) simp_all
  moreover have "x * y \<le> h1 * h2" using assms(1-4) by (intro mult_mono) linarith+
  ultimately show "l1 * l2 \<le> x * y \<and> x * y \<le> h1 * h2" by simp
  show "- 1000000 \<le> l1 * l2" using assms(3,4) by (simp add: order_trans [of _ 0])
qed (use assms in simp_all)

lemma fl_div_within:
  assumes "l1 \<le> \<bar>x\<bar> \<and> \<bar>x\<bar> \<le> h1" "l2 \<le> y \<and> y \<le> h2" "0 \<le> l1" "0 < l2"
    and "h1 / l2 \<le> 1000000"
    and "l \<le> l1 / h2 - 1 / 10 ^ 9" "h1 / l2 + 1 / 10 ^ 9 \<le> h"
  shows "l \<le> \<bar>fl (x / y)\<bar> \<and> \<bar>fl (x / y)\<bar> \<le> h"
proof (rule fl_abs_within [where lo = "l1 / h2" and hi = "h1 / l2"])
  have y: "0 < y" using assms(2,4) by linarith
  have "\<bar>x / y\<bar> = \<bar>x\<bar> / y" using y by (simp add: abs_divide)
  moreover have "l1 / h2 \<le> \<bar>x\<bar> / y" using assms(1-4) y by (intro frac_le) linarith+
  moreover have "\<bar>x\<bar> / y \<le> h1 / l2" using assms(1-4) y by (intro frac_le) linarith+
  ultimately show "l1 / h2 \<le> \<bar>x / y\<bar> \<and> \<bar>x / y\<bar> \<le> h1 / l2" by (simp only:)
qed (use assms in simp_all)

lemma fl_sqrt_within:
  assumes "lo \<le> x \<and> x \<le> hi" "0 \<le> lo" "0 \<le> lr" "lr * lr \<le> lo" "hi \<le> hr * hr" "0 \<le> hr"
    and "hr \<le> 1000000" "l \<le> lr - 1 / 10 ^ 9" "hr + 1 / 10 ^ 9 \<le> h"
  shows "\<exists>d. fl_sqrt x = Some d \<and> l \<le> d \<and> d \<le> h"
proof -
  have x: "0 \<le> x" using assms(1,2) by linarith
  from fl_sqrt_error [OF x] obtain d where d: "fl_sqrt x = Some d"
    and err: "\<bar>d - sqrt x\<bar> \<le> sqrt x / 2 ^ 53" by blast
  have "lr\<^sup>2 \<le> x" using assms(1,4) by (simp add: power2_eq_square)
  then have lo: "lr \<le> sqrt x" by (rule real_le_rsqrt)
  have "x \<le> hr\<^sup>2" using assms(1,5) by (simp add: power2_eq_square)
  then have hi: "sqrt x \<le> hr" using assms(6) by (intro real_le_lsqrt) (use x in simp_all)
  have "sqrt x / 2 ^ 53 \<le> 1000000 / 2 ^ 53"
    using hi assms(7) by (intro divide_right_mono) simp_all
  also have "\<dots> \<le> 1 / 10 ^ 9" by simp
  finally have "\<bar>d - sqrt x\<bar> \<le> 1 / 10 ^ 9" using err by linarith
  then have "l \<le> d" "d \<le> h" using lo hi assms(8,9) by linarith+
  with d show ?thesis by blast
qed

lemma fl_sqrt_negative: "x < 0 \<Longrightarrow> fl_sqrt x = None"
  by (simp add: fl_sqrt_def)


lemma deltaE2000_eval:
  assumes "fl_sqrt (fl (fl (lab_a x * lab_a x) + fl (lab_b x * lab_b x))) = Some c1"
    and "fl_sqrt (fl (fl (lab_a y * lab_a y) + fl (lab_b y * lab_b y))) = Some c2"
    and "fl_sqrt (fl (fl (fl (fl (lab_a x - lab_a y) * fl (lab_a x - lab_a y))
                      + fl (fl (lab_b x - lab_b y) * fl (lab_b x - lab_b y)))
                  - fl (fl (c1 - c2) * fl (c1 - c2)))) = Some dh"
  shows "deltaE2000 x y =
    fl_sqrt (fl (fl (fl (fl (fl (lab_l x - lab_l y) / 1) * fl (fl (lab_l x - lab_l y) / 1))
                     + fl (fl (fl (c1 - c2) / fl (1 + fl (fl 0.045 * c1)))
                           * fl (fl (c1 - c2) / fl (1 + fl (fl 0.045 * c1)))))
                 + fl (fl (dh / fl (1 + fl (fl 0.015 * c1))) * fl (dh / fl (1 + fl (fl 0.015 * c1))))))"
  by (simp only: deltaE2000_def Let_def assms Option.bind.bind_lunit)

subsection \<open>The colour difference of pure red and pure green, and of the neighbours of violet\<close>

text \<open>Each value of the computation is enclosed in an interval with rational ends, the
  rounding of every operation widening it by at most \<open>1 / 10 ^ 9\<close>.\<close>

lemma deltaE2000_red_lime:
  "\<exists>d. deltaE2000 (rgbToLab 255 0 0) (rgbToLab 0 255 0) = Some d \<and> 73.42 \<le> d \<and> d \<le> 73.44"
proof -
  have xl: "53.24 \<le> lab_l (rgbToLab 255 0 0) \<and> lab_l (rgbToLab 255 0 0) \<le> 53.241"
    using lab_red_bounds by simp
  have xa: "80.092 \<le> lab_a (rgbToLab 255 0 0) \<and> lab_a (rgbToLab 255 0 0) \<le> 80.093"
    using lab_red_bounds by simp
  have xb: "67.203 \<le> lab_b (rgbToLab 255 0 0) \<and> lab_b (rgbToLab 255 0 0) \<le> 67.204"
    using lab_red_bounds by simp
  have yl: "87.734 \<le> lab_l (rgbToLab 0 255 0) \<and> lab_l (rgbToLab 0 255 0) \<le> 87.735"
    using lab_lime_bounds by simp
  have ya: "- 86.183 \<le> lab_a (rgbToLab 0 255 0) \<and> lab_a (rgbToLab 0 255 0) \<le> - 86.182"
    using lab_lime_bounds by simp
  have yb: "83.179 \<le> lab_b (rgbToLab 0 255 0) \<and> lab_b (rgbToLab 0 255 0) \<le> 83.18"
    using lab_lime_bounds by simp
  let ?dL = "fl (lab_l (rgbToLab 255 0 0) - lab_l (rgbToLab 0 255 0))"
  let ?da = "fl (lab_a (rgbToLab 255 0 0) - lab_a (rgbToLab 0 255 0))"
  let ?db = "fl (lab_b (rgbToLab 255 0 0) - lab_b (rgbToLab 0 255 0))"
  have s_dL: "- 34.495001 \<le> ?dL \<and> ?dL \<le> - 34.492999"
    by (rule fl_sub_within [OF xl yl]) simp_all
  have s_da: "166.273999 \<le> ?da \<and> ?da \<le> 166.276001"
    by (rule fl_sub_within [OF xa ya]) simp_all
  have s_db: "- 15.977001 \<le> ?db \<and> ?db \<le> - 15.974999"
    by (rule fl_sub_within [OF xb yb]) simp_all
  have a_dL: "34.492999 \<le> \<bar>?dL\<bar> \<and> \<bar>?dL\<bar> \<le> 34.495001"
    using s_dL by (simp; linarith?)
  have a_da: "166.273999 \<le> \<bar>?da\<bar> \<and> \<bar>?da\<bar> \<le> 166.276001"
    using s_da by (simp; linarith?)
  have a_db: "15.974999 \<le> \<bar>?db\<bar> \<and> \<bar>?db\<bar> \<le> 15.977001"
    using s_db by (simp; linarith?)
  have a_xa: "80.092 \<le> \<bar>lab_a (rgbToLab 255 0 0)\<bar> \<and> \<bar>lab_a (rgbToLab 255 0 0)\<bar> \<le> 80.093"
    using xa by (simp; linarith?)
  have a_xb: "67.203 \<le> \<bar>lab_b (rgbToLab 255 0 0)\<bar> \<and> \<bar>lab_b (rgbToLab 255 0 0)\<bar> \<le> 67.204"
    using xb by (simp; linarith?)
  let ?rxa = "fl (lab_a (rgbToLab 255 0 0) * lab_a (rgbToLab 255 0 0))"
  let ?rxb = "fl (lab_b (rgbToLab 255 0 0) * lab_b (rgbToLab 255 0 0))"
  let ?rx = "fl (?rxa + ?rxb)"
  have s_rxa: "6414.728463 \<le> ?rxa \<and> ?rxa \<le> 6414.88865"
    by (rule fl_sq_within [OF a_xa]) simp_all
  have s_rxb: "4516.243208 \<le> ?rxb \<and> ?rxb \<le> 4516.377617"
    by (rule fl_sq_within [OF a_xb]) simp_all
  have s_rx: "10930.97167 \<le> ?rx \<and> ?rx \<le> 10931.266268"
    by (rule fl_add_within [OF s_rxa s_rxb]) simp_all
  have "\<exists>d. fl_sqrt ?rx = Some d \<and> 104.551286 \<le> d \<and> d \<le> 104.552698"
    by (rule fl_sqrt_within [OF s_rx, where lr = "104.551287" and hr = "104.552697"]) simp_all
  then obtain c1 where c1_eq: "fl_sqrt ?rx = Some c1" and s_c1: "104.551286 \<le> c1 \<and> c1 \<le> 104.552698"
    by blast
  have a_ya: "86.182 \<le> \<bar>lab_a (rgbToLab 0 255 0)\<bar> \<and> \<bar>lab_a (rgbToLab 0 255 0)\<bar> \<le> 86.183"
    using ya by (simp; linarith?)
  have a_yb: "83.179 \<le> \<bar>lab_b (rgbToLab 0 255 0)\<bar> \<and> \<bar>lab_b (rgbToLab 0 255 0)\<bar> \<le> 83.18"
    using yb by (simp; linarith?)
  let ?rya = "fl (lab_a (rgbToLab 0 255 0) * lab_a (rgbToLab 0 255 0))"
  let ?ryb = "fl (lab_b (rgbToLab 0 255 0) * lab_b (rgbToLab 0 255 0))"
  let ?ry = "fl (?rya + ?ryb)"
  have s_rya: "7427.337123 \<le> ?rya \<and> ?rya \<le> 7427.50949"
    by (rule fl_sq_within [OF a_ya]) simp_all
  have s_ryb: "6918.74604 \<le> ?ryb \<and> ?ryb \<le> 6918.912401"
    by (rule fl_sq_within [OF a_yb]) simp_all
  have s_ry: "14346.083162 \<le> ?ry \<and> ?ry \<le> 14346.421892"
    by (rule fl_add_within [OF s_rya s_ryb]) simp_all
  have "\<exists>d. fl_sqrt ?ry = Some d \<and> 119.775134 \<le> d \<and> d \<le> 119.776551"
    by (rule fl_sqrt_within [OF s_ry, where lr = "119.775135" and hr = "119.77655"]) simp_all
  then obtain c2 where c2_eq: "fl_sqrt ?ry = Some c2" and s_c2: "119.775134 \<le> c2 \<and> c2 \<le> 119.776551"
    by blast
  let ?dc = "fl (c1 - c2)"
  have s_dc: "- 15.225266 \<le> ?dc \<and> ?dc \<le> - 15.222435"
    by (rule fl_sub_within [OF s_c1 s_c2]) simp_all
  have a_dc: "15.222435 \<le> \<bar>?dc\<bar> \<and> \<bar>?dc\<bar> \<le> 15.225266"
    using s_dc by (simp; linarith?)
  let ?pa = "fl (?da * ?da)"
  let ?pb = "fl (?db * ?db)"
  let ?pc = "fl (?dc * ?dc)"
  have s_pa: "27647.042743 \<le> ?pa \<and> ?pa \<le> 27647.708509"
    by (rule fl_sq_within [OF a_da]) simp_all
  have s_pb: "255.200593 \<le> ?pb \<and> ?pb \<le> 255.264561"
    by (rule fl_sq_within [OF a_db]) simp_all
  have s_pc: "231.722527 \<le> ?pc \<and> ?pc \<le> 231.808725"
    by (rule fl_sq_within [OF a_dc]) simp_all
  let ?pab = "fl (?pa + ?pb)"
  have s_pab: "27902.243335 \<le> ?pab \<and> ?pab \<le> 27902.973071"
    by (rule fl_add_within [OF s_pa s_pb]) simp_all
  let ?hr = "fl (?pab - ?pc)"
  have s_hr: "27670.434609 \<le> ?hr \<and> ?hr \<le> 27671.250545"
    by (rule fl_sub_within [OF s_pab s_pc]) simp_all
  have "\<exists>d. fl_sqrt ?hr = Some d \<and> 166.344324 \<le> d \<and> d \<le> 166.346779"
    by (rule fl_sqrt_within [OF s_hr, where lr = "166.344325" and hr = "166.346778"]) simp_all
  then obtain dh where dh_eq: "fl_sqrt ?hr = Some dh" and s_dh: "166.344324 \<le> dh \<and> dh \<le> 166.346779"
    by blast
  have a_dh: "166.344324 \<le> \<bar>dh\<bar> \<and> \<bar>dh\<bar> \<le> 166.346779"
    using s_dh by (simp; linarith?)
  have one: "(1::real) \<le> 1 \<and> (1::real) \<le> 1" by simp
  have k_sc: "(0.045::real) \<le> 0.045 \<and> (0.045::real) \<le> 0.045" by simp
  let ?ksc = "fl 0.045"
  have s_ksc: "0.044999 \<le> ?ksc \<and> ?ksc \<le> 0.045001"
    by (rule fl_within [OF k_sc]) simp_all
  let ?msc = "fl (?ksc * c1)"
  have s_msc: "4.704703 \<le> ?msc \<and> ?msc \<le> 4.704976"
    by (rule fl_mult_within [OF s_ksc s_c1]) simp_all
  let ?sc = "fl (1 + ?msc)"
  have s_sc: "5.704702 \<le> ?sc \<and> ?sc \<le> 5.704977"
    by (rule fl_add_within [OF one s_msc]) simp_all
  have k_sh: "(0.015::real) \<le> 0.015 \<and> (0.015::real) \<le> 0.015" by simp
  let ?ksh = "fl 0.015"
  have s_ksh: "0.014999 \<le> ?ksh \<and> ?ksh \<le> 0.015001"
    by (rule fl_within [OF k_sh]) simp_all
  let ?msh = "fl (?ksh * c1)"
  have s_msh: "1.568164 \<le> ?msh \<and> ?msh \<le> 1.568396"
    by (rule fl_mult_within [OF s_ksh s_c1]) simp_all
  let ?sh = "fl (1 + ?msh)"
  have s_sh: "2.568163 \<le> ?sh \<and> ?sh \<le> 2.568397"
    by (rule fl_add_within [OF one s_msh]) simp_all
  let ?tL = "fl (?dL / 1)"
  have a_dL1: "34.492999 \<le> \<bar>?dL / 1\<bar> \<and> \<bar>?dL / 1\<bar> \<le> 34.495001"
    using a_dL by simp
  have a_tL: "34.492998 \<le> \<bar>?tL\<bar> \<and> \<bar>?tL\<bar> \<le> 34.495002"
    by (rule fl_abs_within [OF a_dL1]) simp_all
  let ?tc = "fl (?dc / ?sc)"
  have a_tc: "2.668272 \<le> \<bar>?tc\<bar> \<and> \<bar>?tc\<bar> \<le> 2.668898"
    by (rule fl_div_within [OF a_dc s_sc]) simp_all
  let ?th = "fl (dh / ?sh)"
  have a_th: "64.765814 \<le> \<bar>?th\<bar> \<and> \<bar>?th\<bar> \<le> 64.772672"
    by (rule fl_div_within [OF a_dh s_sh]) simp_all
  let ?qL = "fl (?tL * ?tL)"
  let ?qc = "fl (?tc * ?tc)"
  let ?qh = "fl (?th * ?th)"
  have s_qL: "1189.766911 \<le> ?qL \<and> ?qL \<le> 1189.905163"
    by (rule fl_sq_within [OF a_tL]) simp_all
  have s_qc: "7.119675 \<le> ?qc \<and> ?qc \<le> 7.123017"
    by (rule fl_sq_within [OF a_tc]) simp_all
  have s_qh: "4194.610663 \<le> ?qh \<and> ?qh \<le> 4195.499039"
    by (rule fl_sq_within [OF a_th]) simp_all
  let ?s1 = "fl (?qL + ?qc)"
  have s_s1: "1196.886585 \<le> ?s1 \<and> ?s1 \<le> 1197.028181"
    by (rule fl_add_within [OF s_qL s_qc]) simp_all
  let ?s2 = "fl (?s1 + ?qh)"
  have s_s2: "5391.497247 \<le> ?s2 \<and> ?s2 \<le> 5392.527221"
    by (rule fl_add_within [OF s_s1 s_qh]) simp_all
  have "\<exists>d. fl_sqrt ?s2 = Some d \<and> 73.42 \<le> d \<and> d \<le> 73.44"
    by (rule fl_sqrt_within [OF s_s2, where lr = "73.426815" and hr = "73.433829"]) simp_all
  moreover have "deltaE2000 (rgbToLab 255 0 0) (rgbToLab 0 255 0) = fl_sqrt ?s2"
    by (rule deltaE2000_eval [OF c1_eq c2_eq dh_eq])
  ultimately show ?thesis by simp
qed

lemma deltaE2000_violet_blue:
  "\<exists>d. deltaE2000 (rgbToLab 128 0 255) (rgbToLab 0 0 255) = Some d \<and> 9.69 \<le> d \<and> d \<le> 9.71"
proof -
  have xl: "40.909 \<le> lab_l (rgbToLab 128 0 255) \<and> lab_l (rgbToLab 128 0 255) \<le> 40.91"
    using lab_violet_bounds by simp
  have xa: "83.167 \<le> lab_a (rgbToLab 128 0 255) \<and> lab_a (rgbToLab 128 0 255) \<le> 83.169"
    using lab_violet_bounds by simp
  have xb: "- 93.291 \<le> lab_b (rgbToLab 128 0 255) \<and> lab_b (rgbToLab 128 0 255) \<le> - 93.289"
    using lab_violet_bounds by simp
  have yl: "32.296 \<le> lab_l (rgbToLab 0 0 255) \<and> lab_l (rgbToLab 0 0 255) \<le> 32.298"
    using lab_blue_bounds by simp
  have ya: "79.187 \<le> lab_a (rgbToLab 0 0 255) \<and> lab_a (rgbToLab 0 0 255) \<le> 79.188"
    using lab_blue_bounds by simp
  have yb: "- 107.861 \<le> lab_b (rgbToLab 0 0 255) \<and> lab_b (rgbToLab 0 0 255) \<le> - 107.86"
    using lab_blue_bounds by simp
  let ?dL = "fl (lab_l (rgbToLab 128 0 255) - lab_l (rgbToLab 0 0 255))"
  let ?da = "fl (lab_a (rgbToLab 128 0 255) - lab_a (rgbToLab 0 0 255))"
  let ?db = "fl (lab_b (rgbToLab 128 0 255) - lab_b (rgbToLab 0 0 255))"
  have s_dL: "8.610999 \<le> ?dL \<and> ?dL \<le> 8.614001"
    by (rule fl_sub_within [OF xl yl]) simp_all
  have s_da: "3.978999 \<le> ?da \<and> ?da \<le> 3.982001"
    by (rule fl_sub_within [OF xa ya]) simp_all
  have s_db: "14.568999 \<le> ?db \<and> ?db \<le> 14.572001"
    by (rule fl_sub_within [OF xb yb]) simp_all
  have a_dL: "8.610999 \<le> \<bar>?dL\<bar> \<and> \<bar>?dL\<bar> \<le> 8.614001"
    using s_dL by (simp; linarith?)
  have a_da: "3.978999 \<le> \<bar>?da\<bar> \<and> \<bar>?da\<bar> \<le> 3.982001"
    using s_da by (simp; linarith?)
  have a_db: "14.568999 \<le> \<bar>?db\<bar> \<and> \<bar>?db\<bar> \<le> 14.572001"
    using s_db by (simp; linarith?)
  have a_xa: "83.167 \<le> \<bar>lab_a (rgbToLab 128 0 255)\<bar> \<and> \<bar>lab_a (rgbToLab 128 0 255)\<bar> \<le> 83.169"
    using xa by (simp; linarith?)
  have a_xb: "93.289 \<le> \<bar>lab_b (rgbToLab 128 0 255)\<bar> \<and> \<bar>lab_b (rgbToLab 128 0 255)\<bar> \<le> 93.291"
    using xb by (simp; linarith?)
  let ?rxa = "fl (lab_a (rgbToLab 128 0 255) * lab_a (rgbToLab 128 0 255))"
  let ?rxb = "fl (lab_b (rgbToLab 128 0 255) * lab_b (rgbToLab 128 0 255))"
  let ?rx = "fl (?rxa + ?rxb)"
  have s_rxa: "6916.749888 \<le> ?rxa \<and> ?rxa \<le> 6917.082562"
    by (rule fl_sq_within [OF a_xa]) simp_all
  have s_rxb: "8702.83752 \<le> ?rxb \<and> ?rxb \<le> 8703.210682"
    by (rule fl_sq_within [OF a_xb]) simp_all
  have s_rx: "15619.587407 \<le> ?rx \<and> ?rx \<le> 15620.293245"
    by (rule fl_add_within [OF s_rxa s_rxb]) simp_all
  have "\<exists>d. fl_sqrt ?rx = Some d \<and> 124.978346 \<le> d \<and> d \<le> 124.981173"
    by (rule fl_sqrt_within [OF s_rx, where lr = "124.978347" and hr = "124.981172"]) simp_all
  then obtain c1 where c1_eq: "fl_sqrt ?rx = Some c1" and s_c1: "124.978346 \<le> c1 \<and> c1 \<le> 124.981173"
    by blast
  have a_ya: "79.187 \<le> \<bar>lab_a (rgbToLab 0 0 255)\<bar> \<and> \<bar>lab_a (rgbToLab 0 0 255)\<bar> \<le> 79.188"
    using ya by (simp; linarith?)
  have a_yb: "107.86 \<le> \<bar>lab_b (rgbToLab 0 0 255)\<bar> \<and> \<bar>lab_b (rgbToLab 0 0 255)\<bar> \<le> 107.861"
    using yb by (simp; linarith?)
  let ?rya = "fl (lab_a (rgbToLab 0 0 255) * lab_a (rgbToLab 0 0 255))"
  let ?ryb = "fl (lab_b (rgbToLab 0 0 255) * lab_b (rgbToLab 0 0 255))"
  let ?ry = "fl (?rya + ?ryb)"
  have s_rya: "6270.580968 \<le> ?rya \<and> ?rya \<le> 6270.739345"
    by (rule fl_sq_within [OF a_ya]) simp_all
  have s_ryb: "11633.779599 \<le> ?ryb \<and> ?ryb \<le> 11633.995322"
    by (rule fl_sq_within [OF a_yb]) simp_all
  have s_ry: "17904.360566 \<le> ?ry \<and> ?ry \<le> 17904.734668"
    by (rule fl_add_within [OF s_rya s_ryb]) simp_all
  have "\<exists>d. fl_sqrt ?ry = Some d \<and> 133.807175 \<le> d \<and> d \<le> 133.808576"
    by (rule fl_sqrt_within [OF s_ry, where lr = "133.807176" and hr = "133.808575"]) simp_all
  then obtain c2 where c2_eq: "fl_sqrt ?ry = Some c2" and s_c2: "133.807175 \<le> c2 \<and> c2 \<le> 133.808576"
    by blast
  let ?dc = "fl (c1 - c2)"
  have s_dc: "- 8.830231 \<le> ?dc \<and> ?dc \<le> - 8.826001"
    by (rule fl_sub_within [OF s_c1 s_c2]) simp_all
  have a_dc: "8.826001 \<le> \<bar>?dc\<bar> \<and> \<bar>?dc\<bar> \<le> 8.830231"
    using s_dc by (simp; linarith?)
  let ?pa = "fl (?da * ?da)"
  let ?pb = "fl (?db * ?db)"
  let ?pc = "fl (?dc * ?dc)"
  have s_pa: "15.832433 \<le> ?pa \<and> ?pa \<le> 15.856332"
    by (rule fl_sq_within [OF a_da]) simp_all
  have s_pb: "212.255731 \<le> ?pb \<and> ?pb \<le> 212.343214"
    by (rule fl_sq_within [OF a_db]) simp_all
  have s_pc: "77.898293 \<le> ?pc \<and> ?pc \<le> 77.97298"
    by (rule fl_sq_within [OF a_dc]) simp_all
  let ?pab = "fl (?pa + ?pb)"
  have s_pab: "228.088163 \<le> ?pab \<and> ?pab \<le> 228.199547"
    by (rule fl_add_within [OF s_pa s_pb]) simp_all
  let ?hr = "fl (?pab - ?pc)"
  have s_hr: "150.115182 \<le> ?hr \<and> ?hr \<le> 150.301255"
    by (rule fl_sub_within [OF s_pab s_pc]) simp_all
  have "\<exists>d. fl_sqrt ?hr = Some d \<and> 12.252149 \<le> d \<and> d \<le> 12.259743"
    by (rule fl_sqrt_within [OF s_hr, where lr = "12.25215" and hr = "12.259742"]) simp_all
  then obtain dh where dh_eq: "fl_sqrt ?hr = Some dh" and s_dh: "12.252149 \<le> dh \<and> dh \<le> 12.259743"
    by blast
  have a_dh: "12.252149 \<le> \<bar>dh\<bar> \<and> \<bar>dh\<bar> \<le> 12.259743"
    using s_dh by (simp; linarith?)
  have one: "(1::real) \<le> 1 \<and> (1::real) \<le> 1" by simp
  have k_sc: "(0.045::real) \<le> 0.045 \<and> (0.045::real) \<le> 0.045" by simp
  let ?ksc = "fl 0.045"
  have s_ksc: "0.044999 \<le> ?ksc \<and> ?ksc \<le> 0.045001"
    by (rule fl_within [OF k_sc]) simp_all
  let ?msc = "fl (?ksc * c1)"
  have s_msc: "5.6239 \<le> ?msc \<and> ?msc \<le> 5.624278"
    by (rule fl_mult_within [OF s_ksc s_c1]) simp_all
  let ?sc = "fl (1 + ?msc)"
  have s_sc: "6.623899 \<le> ?sc \<and> ?sc \<le> 6.624279"
    by (rule fl_add_within [OF one s_msc]) simp_all
  have k_sh: "(0.015::real) \<le> 0.015 \<and> (0.015::real) \<le> 0.015" by simp
  let ?ksh = "fl 0.015"
  have s_ksh: "0.014999 \<le> ?ksh \<and> ?ksh \<le> 0.015001"
    by (rule fl_within [OF k_sh]) simp_all
  let ?msh = "fl (?ksh * c1)"
  have s_msh: "1.87455 \<le> ?msh \<and> ?msh \<le> 1.874843"
    by (rule fl_mult_within [OF s_ksh s_c1]) simp_all
  let ?sh = "fl (1 + ?msh)"
  have s_sh: "2.874549 \<le> ?sh \<and> ?sh \<le> 2.874844"
    by (rule fl_add_within [OF one s_msh]) simp_all
  let ?tL = "fl (?dL / 1)"
  have a_dL1: "8.610999 \<le> \<bar>?dL / 1\<bar> \<and> \<bar>?dL / 1\<bar> \<le> 8.614001"
    using a_dL by simp
  have a_tL: "8.610998 \<le> \<bar>?tL\<bar> \<and> \<bar>?tL\<bar> \<le> 8.614002"
    by (rule fl_abs_within [OF a_dL1]) simp_all
  let ?tc = "fl (?dc / ?sc)"
  have a_tc: "1.332371 \<le> \<bar>?tc\<bar> \<and> \<bar>?tc\<bar> \<le> 1.333087"
    by (rule fl_div_within [OF a_dc s_sc]) simp_all
  let ?th = "fl (dh / ?sh)"
  have a_th: "4.261848 \<le> \<bar>?th\<bar> \<and> \<bar>?th\<bar> \<le> 4.264928"
    by (rule fl_div_within [OF a_dh s_sh]) simp_all
  let ?qL = "fl (?tL * ?tL)"
  let ?qc = "fl (?tc * ?tc)"
  let ?qh = "fl (?th * ?th)"
  have s_qL: "74.149286 \<le> ?qL \<and> ?qL \<le> 74.201031"
    by (rule fl_sq_within [OF a_tL]) simp_all
  have s_qc: "1.775212 \<le> ?qc \<and> ?qc \<le> 1.777121"
    by (rule fl_sq_within [OF a_tc]) simp_all
  have s_qh: "18.163348 \<le> ?qh \<and> ?qh \<le> 18.189611"
    by (rule fl_sq_within [OF a_th]) simp_all
  let ?s1 = "fl (?qL + ?qc)"
  have s_s1: "75.924497 \<le> ?s1 \<and> ?s1 \<le> 75.978153"
    by (rule fl_add_within [OF s_qL s_qc]) simp_all
  let ?s2 = "fl (?s1 + ?qh)"
  have s_s2: "94.087844 \<le> ?s2 \<and> ?s2 \<le> 94.167765"
    by (rule fl_add_within [OF s_s1 s_qh]) simp_all
  have "\<exists>d. fl_sqrt ?s2 = Some d \<and> 9.69 \<le> d \<and> d \<le> 9.71"
    by (rule fl_sqrt_within [OF s_s2, where lr = "9.699888" and hr = "9.704008"]) simp_all
  moreover have "deltaE2000 (rgbToLab 128 0 255) (rgbToLab 0 0 255) = fl_sqrt ?s2"
    by (rule deltaE2000_eval [OF c1_eq c2_eq dh_eq])
  ultimately show ?thesis by simp
qed

lemma deltaE2000_violet_magenta:
  "\<exists>d. deltaE2000 (rgbToLab 128 0 255) (rgbToLab 255 0 255) = Some d \<and> 22.87 \<le> d \<and> d \<le> 22.88"
proof -
  have xl: "40.909 \<le> lab_l (rgbToLab 128 0 255) \<and> lab_l (rgbToLab 128 0 255) \<le> 40.91"
    using lab_violet_bounds by simp
  have xa: "83.167 \<le> lab_a (rgbToLab 128 0 255) \<and> lab_a (rgbToLab 128 0 255) \<le> 83.169"
    using lab_violet_bounds by simp
  have xb: "- 93.291 \<le> lab_b (rgbToLab 128 0 255) \<and> lab_b (rgbToLab 128 0 255) \<le> - 93.289"
    using lab_violet_bounds by simp
  have yl: "60.324 \<le> lab_l (rgbToLab 255 0 255) \<and> lab_l (rgbToLab 255 0 255) \<le> 60.325"
    using lab_magenta_bounds by simp
  have ya: "98.233 \<le> lab_a (rgbToLab 255 0 255) \<and> lab_a (rgbToLab 255 0 255) \<le> 98.235"
    using lab_magenta_bounds by simp
  have yb: "- 60.825 \<le> lab_b (rgbToLab 255 0 255) \<and> lab_b (rgbToLab 255 0 255) \<le> - 60.824"
    using lab_magenta_bounds by simp
  let ?dL = "fl (lab_l (rgbToLab 128 0 255) - lab_l (rgbToLab 255 0 255))"
  let ?da = "fl (lab_a (rgbToLab 128 0 255) - lab_a (rgbToLab 255 0 255))"
  let ?db = "fl (lab_b (rgbToLab 128 0 255) - lab_b (rgbToLab 255 0 255))"
  have s_dL: "- 19.416001 \<le> ?dL \<and> ?dL \<le> - 19.413999"
    by (rule fl_sub_within [OF xl yl]) simp_all
  have s_da: "- 15.068001 \<le> ?da \<and> ?da \<le> - 15.063999"
    by (rule fl_sub_within [OF xa ya]) simp_all
  have s_db: "- 32.467001 \<le> ?db \<and> ?db \<le> - 32.463999"
    by (rule fl_sub_within [OF xb yb]) simp_all
  have a_dL: "19.413999 \<le> \<bar>?dL\<bar> \<and> \<bar>?dL\<bar> \<le> 19.416001"
    using s_dL by (simp; linarith?)
  have a_da: "15.063999 \<le> \<bar>?da\<bar> \<and> \<bar>?da\<bar> \<le> 15.068001"
    using s_da by (simp; linarith?)
  have a_db: "32.463999 \<le> \<bar>?db\<bar> \<and> \<bar>?db\<bar> \<le> 32.467001"
    using s_db by (simp; linarith?)
  have a_xa: "83.167 \<le> \<bar>lab_a (rgbToLab 128 0 255)\<bar> \<and> \<bar>lab_a (rgbToLab 128 0 255)\<bar> \<le> 83.169"
    using xa by (simp; linarith?)
  have a_xb: "93.289 \<le> \<bar>lab_b (rgbToLab 128 0 255)\<bar> \<and> \<bar>lab_b (rgbToLab 128 0 255)\<bar> \<le> 93.291"
    using xb by (simp; linarith?)
  let ?rxa = "fl (lab_a (rgbToLab 128 0 255) * lab_a (rgbToLab 128 0 255))"
  let ?rxb = "fl (lab_b (rgbToLab 128 0 255) * lab_b (rgbToLab 128 0 255))"
  let ?rx = "fl (?rxa + ?rxb)"
  have s_rxa: "6916.749888 \<le> ?rxa \<and> ?rxa \<le> 6917.082562"
    by (rule fl_sq_within [OF a_xa]) simp_all
  have s_rxb: "8702.83752 \<le> ?rxb \<and> ?rxb \<le> 8703.210682"
    by (rule fl_sq_within [OF a_xb]) simp_all
  have s_rx: "15619.587407 \<le> ?rx \<and> ?rx \<le> 15620.293245"
    by (rule fl_add_within [OF s_rxa s_rxb]) simp_all
  have "\<exists>d. fl_sqrt ?rx = Some d \<and> 124.978346 \<le> d \<and> d \<le> 124.981173"
    by (rule fl_sqrt_within [OF s_rx, where lr = "124.978347" and hr = "124.981172"]) simp_all
  then obtain c1 where c1_eq: "fl_sqrt ?rx = Some c1" and s_c1: "124.978346 \<le> c1 \<and> c1 \<le> 124.981173"
    by blast
  have a_ya: "98.233 \<le> \<bar>lab_a (rgbToLab 255 0 255)\<bar> \<and> \<bar>lab_a (rgbToLab 255 0 255)\<bar> \<le> 98.235"
    using ya by (simp; linarith?)
  have a_yb: "60.824 \<le> \<bar>lab_b (rgbToLab 255 0 255)\<bar> \<and> \<bar>lab_b (rgbToLab 255 0 255)\<bar> \<le> 60.825"
    using yb by (simp; linarith?)
  let ?rya = "fl (lab_a (rgbToLab 255 0 255) * lab_a (rgbToLab 255 0 255))"
  let ?ryb = "fl (lab_b (rgbToLab 255 0 255) * lab_b (rgbToLab 255 0 255))"
  let ?ry = "fl (?rya + ?ryb)"
  have s_rya: "9649.722288 \<le> ?rya \<and> ?rya \<le> 9650.115226"
    by (rule fl_sq_within [OF a_ya]) simp_all
  have s_ryb: "3699.558975 \<le> ?ryb \<and> ?ryb \<le> 3699.680626"
    by (rule fl_sq_within [OF a_yb]) simp_all
  have s_ry: "13349.281262 \<le> ?ry \<and> ?ry \<le> 13349.795853"
    by (rule fl_add_within [OF s_rya s_ryb]) simp_all
  have "\<exists>d. fl_sqrt ?ry = Some d \<and> 115.539088 \<le> d \<and> d \<le> 115.541318"
    by (rule fl_sqrt_within [OF s_ry, where lr = "115.539089" and hr = "115.541317"]) simp_all
  then obtain c2 where c2_eq: "fl_sqrt ?ry = Some c2" and s_c2: "115.539088 \<le> c2 \<and> c2 \<le> 115.541318"
    by blast
  let ?dc = "fl (c1 - c2)"
  have s_dc: "9.437027 \<le> ?dc \<and> ?dc \<le> 9.442086"
    by (rule fl_sub_within [OF s_c1 s_c2]) simp_all
  have a_dc: "9.437027 \<le> \<bar>?dc\<bar> \<and> \<bar>?dc\<bar> \<le> 9.442086"
    using s_dc by (simp; linarith?)
  let ?pa = "fl (?da * ?da)"
  let ?pb = "fl (?db * ?db)"
  let ?pc = "fl (?dc * ?dc)"
  have s_pa: "226.924065 \<le> ?pa \<and> ?pa \<le> 227.044655"
    by (rule fl_sq_within [OF a_da]) simp_all
  have s_pb: "1053.911231 \<le> ?pb \<and> ?pb \<le> 1054.106154"
    by (rule fl_sq_within [OF a_db]) simp_all
  have s_pc: "89.057478 \<le> ?pc \<and> ?pc \<le> 89.152989"
    by (rule fl_sq_within [OF a_dc]) simp_all
  let ?pab = "fl (?pa + ?pb)"
  have s_pab: "1280.835295 \<le> ?pab \<and> ?pab \<le> 1281.15081"
    by (rule fl_add_within [OF s_pa s_pb]) simp_all
  let ?hr = "fl (?pab - ?pc)"
  have s_hr: "1191.682305 \<le> ?hr \<and> ?hr \<le> 1192.093333"
    by (rule fl_sub_within [OF s_pab s_pc]) simp_all
  have "\<exists>d. fl_sqrt ?hr = Some d \<and> 34.52075 \<le> d \<and> d \<le> 34.526706"
    by (rule fl_sqrt_within [OF s_hr, where lr = "34.520751" and hr = "34.526705"]) simp_all
  then obtain dh where dh_eq: "fl_sqrt ?hr = Some dh" and s_dh: "34.52075 \<le> dh \<and> dh \<le> 34.526706"
    by blast
  have a_dh: "34.52075 \<le> \<bar>dh\<bar> \<and> \<bar>dh\<bar> \<le> 34.526706"
    using s_dh by (simp; linarith?)
  have one: "(1::real) \<le> 1 \<and> (1::real) \<le> 1" by simp
  have k_sc: "(0.045::real) \<le> 0.045 \<and> (0.045::real) \<le> 0.045" by simp
  let ?ksc = "fl 0.045"
  have s_ksc: "0.044999 \<le> ?ksc \<and> ?ksc \<le> 0.045001"
    by (rule fl_within [OF k_sc]) simp_all
  let ?msc = "fl (?ksc * c1)"
  have s_msc: "5.6239 \<le> ?msc \<and> ?msc \<le> 5.624278"
    by (rule fl_mult_within [OF s_ksc s_c1]) simp_all
  let ?sc = "fl (1 + ?msc)"
  have s_sc: "6.623899 \<le> ?sc \<and> ?sc \<le> 6.624279"
    by (rule fl_add_within [OF one s_msc]) simp_all
  have k_sh: "(0.015::real) \<le> 0.015 \<and> (0.015::real) \<le> 0.015" by simp
  let ?ksh = "fl 0.015"
  have s_ksh: "0.014999 \<le> ?ksh \<and> ?ksh \<le> 0.015001"
    by (rule fl_within [OF k_sh]) simp_all
  let ?msh = "fl (?ksh * c1)"
  have s_msh: "1.87455 \<le> ?msh \<and> ?msh \<le> 1.874843"
    by (rule fl_mult_within [OF s_ksh s_c1]) simp_all
  let ?sh = "fl (1 + ?msh)"
  have s_sh: "2.874549 \<le> ?sh \<and> ?sh \<le> 2.874844"
    by (rule fl_add_within [OF one s_msh]) simp_all
  let ?tL = "fl (?dL / 1)"
  have a_dL1: "19.413999 \<le> \<bar>?dL / 1\<bar> \<and> \<bar>?dL / 1\<bar> \<le> 19.416001"
    using a_dL by simp
  have a_tL: "19.413998 \<le> \<bar>?tL\<bar> \<and> \<bar>?tL\<bar> \<le> 19.416002"
    by (rule fl_abs_within [OF a_dL1]) simp_all
  let ?tc = "fl (?dc / ?sc)"
  have a_tc: "1.424611 \<le> \<bar>?tc\<bar> \<and> \<bar>?tc\<bar> \<le> 1.425458"
    by (rule fl_div_within [OF a_dc s_sc]) simp_all
  let ?th = "fl (dh / ?sh)"
  have a_th: "12.007868 \<le> \<bar>?th\<bar> \<and> \<bar>?th\<bar> \<le> 12.011174"
    by (rule fl_div_within [OF a_dh s_sh]) simp_all
  let ?qL = "fl (?tL * ?tL)"
  let ?qc = "fl (?tc * ?tc)"
  let ?qh = "fl (?th * ?th)"
  have s_qL: "376.903318 \<le> ?qL \<and> ?qL \<le> 376.981134"
    by (rule fl_sq_within [OF a_tL]) simp_all
  have s_qc: "2.029516 \<le> ?qc \<and> ?qc \<le> 2.031931"
    by (rule fl_sq_within [OF a_tc]) simp_all
  have s_qh: "144.188893 \<le> ?qh \<and> ?qh \<le> 144.268301"
    by (rule fl_sq_within [OF a_th]) simp_all
  let ?s1 = "fl (?qL + ?qc)"
  have s_s1: "378.932833 \<le> ?s1 \<and> ?s1 \<le> 379.013066"
    by (rule fl_add_within [OF s_qL s_qc]) simp_all
  let ?s2 = "fl (?s1 + ?qh)"
  have s_s2: "523.121725 \<le> ?s2 \<and> ?s2 \<le> 523.281368"
    by (rule fl_add_within [OF s_s1 s_qh]) simp_all
  have "\<exists>d. fl_sqrt ?s2 = Some d \<and> 22.87 \<le> d \<and> d \<le> 22.88"
    by (rule fl_sqrt_within [OF s_s2, where lr = "22.871854" and hr = "22.875345"]) simp_all
  moreover have "deltaE2000 (rgbToLab 128 0 255) (rgbToLab 255 0 255) = fl_sqrt ?s2"
    by (rule deltaE2000_eval [OF c1_eq c2_eq dh_eq])
  ultimately show ?thesis by simp
qed

lemma deltaE2000_blue_violet:
  "\<exists>d. deltaE2000 (rgbToLab 0 0 255) (rgbToLab 128 0 255) = Some d \<and> 9.6 \<le> d \<and> d \<le> 9.62"
proof -
  have xl: "32.296 \<le> lab_l (rgbToLab 0 0 255) \<and> lab_l (rgbToLab 0 0 255) \<le> 32.298"
    using lab_blue_bounds by simp
  have xa: "79.187 \<le> lab_a (rgbToLab 0 0 255) \<and> lab_a (rgbToLab 0 0 255) \<le> 79.188"
    using lab_blue_bounds by simp
  have xb: "- 107.861 \<le> lab_b (rgbToLab 0 0 255) \<and> lab_b (rgbToLab 0 0 255) \<le> - 107.86"
    using lab_blue_bounds by simp
  have yl: "40.909 \<le> lab_l (rgbToLab 128 0 255) \<and> lab_l (rgbToLab 128 0 255) \<le> 40.91"
    using lab_violet_bounds by simp
  have ya: "83.167 \<le> lab_a (rgbToLab 128 0 255) \<and> lab_a (rgbToLab 128 0 255) \<le> 83.169"
    using lab_violet_bounds by simp
  have yb: "- 93.291 \<le> lab_b (rgbToLab 128 0 255) \<and> lab_b (rgbToLab 128 0 255) \<le> - 93.289"
    using lab_violet_bounds by simp
  let ?dL = "fl (lab_l (rgbToLab 0 0 255) - lab_l (rgbToLab 128 0 255))"
  let ?da = "fl (lab_a (rgbToLab 0 0 255) - lab_a (rgbToLab 128 0 255))"
  let ?db = "fl (lab_b (rgbToLab 0 0 255) - lab_b (rgbToLab 128 0 255))"
  have s_dL: "- 8.614001 \<le> ?dL \<and> ?dL \<le> - 8.610999"
    by (rule fl_sub_within [OF xl yl]) simp_all
  have s_da: "- 3.982001 \<le> ?da \<and> ?da \<le> - 3.978999"
    by (rule fl_sub_within [OF xa ya]) simp_all
  have s_db: "- 14.572001 \<le> ?db \<and> ?db \<le> - 14.568999"
    by (rule fl_sub_within [OF xb yb]) simp_all
  have a_dL: "8.610999 \<le> \<bar>?dL\<bar> \<and> \<bar>?dL\<bar> \<le> 8.614001"
    using s_dL by (simp; linarith?)
  have a_da: "3.978999 \<le> \<bar>?da\<bar> \<and> \<bar>?da\<bar> \<le> 3.982001"
    using s_da by (simp; linarith?)
  have a_db: "14.568999 \<le> \<bar>?db\<bar> \<and> \<bar>?db\<bar> \<le> 14.572001"
    using s_db by (simp; linarith?)
  have a_xa: "79.187 \<le> \<bar>lab_a (rgbToLab 0 0 255)\<bar> \<and> \<bar>lab_a (rgbToLab 0 0 255)\<bar> \<le> 79.188"
    using xa by (simp; linarith?)
  have a_xb: "107.86 \<le> \<bar>lab_b (rgbToLab 0 0 255)\<bar> \<and> \<bar>lab_b (rgbToLab 0 0 255)\<bar> \<le> 107.861"
    using xb by (simp; linarith?)
  let ?rxa = "fl (lab_a (rgbToLab 0 0 255) * lab_a (rgbToLab 0 0 255))"
  let ?rxb = "fl (lab_b (rgbToLab 0 0 255) * lab_b (rgbToLab 0 0 255))"
  let ?rx = "fl (?rxa + ?rxb)"
  have s_rxa: "6270.580968 \<le> ?rxa \<and> ?rxa \<le> 6270.739345"
    by (rule fl_sq_within [OF a_xa]) simp_all
  have s_rxb: "11633.779599 \<le> ?rxb \<and> ?rxb \<le> 11633.995322"
    by (rule fl_sq_within [OF a_xb]) simp_all
  have s_rx: "17904.360566 \<le> ?rx \<and> ?rx \<le> 17904.734668"
    by (rule fl_add_within [OF s_rxa s_rxb]) simp_all
  have "\<exists>d. fl_sqrt ?rx = Some d \<and> 133.807175 \<le> d \<and> d \<le> 133.808576"
    by (rule fl_sqrt_within [OF s_rx, where lr = "133.807176" and hr = "133.808575"]) simp_all
  then obtain c1 where c1_eq: "fl_sqrt ?rx = Some c1" and s_c1: "133.807175 \<le> c1 \<and> c1 \<le> 133.808576"
    by blast
  have a_ya: "83.167 \<le> \<bar>lab_a (rgbToLab 128 0 255)\<bar> \<and> \<bar>lab_a (rgbToLab 128 0 255)\<bar> \<le> 83.169"
    using ya by (simp; linarith?)
  have a_yb: "93.289 \<le> \<bar>lab_b (rgbToLab 128 0 255)\<bar> \<and> \<bar>lab_b (rgbToLab 128 0 255)\<bar> \<le> 93.291"
    using yb by (simp; linarith?)
  let ?rya = "fl (lab_a (rgbToLab 128 0 255) * lab_a (rgbToLab 128 0 255))"
  let ?ryb = "fl (lab_b (rgbToLab 128 0 255) * lab_b (rgbToLab 128 0 255))"
  let ?ry = "fl (?rya + ?ryb)"
  have s_rya: "6916.749888 \<le> ?rya \<and> ?rya \<le> 6917.082562"
    by (rule fl_sq_within [OF a_ya]) simp_all
  have s_ryb: "8702.83752 \<le> ?ryb \<and> ?ryb \<le> 8703.210682"
    by (rule fl_sq_within [OF a_yb]) simp_all
  have s_ry: "15619.587407 \<le> ?ry \<and> ?ry \<le> 15620.293245"
    by (rule fl_add_within [OF s_rya s_ryb]) simp_all
  have "\<exists>d. fl_sqrt ?ry = Some d \<and> 124.978346 \<le> d \<and> d \<le> 124.981173"
    by (rule fl_sqrt_within [OF s_ry, where lr = "124.978347" and hr = "124.981172"]) simp_all
  then obtain c2 where c2_eq: "fl_sqrt ?ry = Some c2" and s_c2: "124.978346 \<le> c2 \<and> c2 \<le> 124.981173"
    by blast
  let ?dc = "fl (c1 - c2)"
  have s_dc: "8.826001 \<le> ?dc \<and> ?dc \<le> 8.830231"
    by (rule fl_sub_within [OF s_c1 s_c2]) simp_all
  have a_dc: "8.826001 \<le> \<bar>?dc\<bar> \<and> \<bar>?dc\<bar> \<le> 8.830231"
    using s_dc by (simp; linarith?)
  let ?pa = "fl (?da * ?da)"
  let ?pb = "fl (?db * ?db)"
  let ?pc = "fl (?dc * ?dc)"
  have s_pa: "15.832433 \<le> ?pa \<and> ?pa \<le> 15.856332"
    by (rule fl_sq_within [OF a_da]) simp_all
  have s_pb: "212.255731 \<le> ?pb \<and> ?pb \<le> 212.343214"
    by (rule fl_sq_within [OF a_db]) simp_all
  have s_pc: "77.898293 \<le> ?pc \<and> ?pc \<le> 77.97298"
    by (rule fl_sq_within [OF a_dc]) simp_all
  let ?pab = "fl (?pa + ?pb)"
  have s_pab: "228.088163 \<le> ?pab \<and> ?pab \<le> 228.199547"
    by (rule fl_add_within [OF s_pa s_pb]) simp_all
  let ?hr = "fl (?pab - ?pc)"
  have s_hr: "150.115182 \<le> ?hr \<and> ?hr \<le> 150.301255"
    by (rule fl_sub_within [OF s_pab s_pc]) simp_all
  have "\<exists>d. fl_sqrt ?hr = Some d \<and> 12.252149 \<le> d \<and> d \<le> 12.259743"
    by (rule fl_sqrt_within [OF s_hr, where lr = "12.25215" and hr = "12.259742"]) simp_all
  then obtain dh where dh_eq: "fl_sqrt ?hr = Some dh" and s_dh: "12.252149 \<le> dh \<and> dh \<le> 12.259743"
    by blast
  have a_dh: "12.252149 \<le> \<bar>dh\<bar> \<and> \<bar>dh\<bar> \<le> 12.259743"
    using s_dh by (simp; linarith?)
  have one: "(1::real) \<le> 1 \<and> (1::real) \<le> 1" by simp
  have k_sc: "(0.045::real) \<le> 0.045 \<and> (0.045::real) \<le> 0.045" by simp
  let ?ksc = "fl 0.045"
  have s_ksc: "0.044999 \<le> ?ksc \<and> ?ksc \<le> 0.045001"
    by (rule fl_within [OF k_sc]) simp_all
  let ?msc = "fl (?ksc * c1)"
  have s_msc: "6.021189 \<le> ?msc \<and> ?msc \<le> 6.02152"
    by (rule fl_mult_within [OF s_ksc s_c1]) simp_all
  let ?sc = "fl (1 + ?msc)"
  have s_sc: "7.021188 \<le> ?sc \<and> ?sc \<le> 7.021521"
    by (rule fl_add_within [OF one s_msc]) simp_all
  have k_sh: "(0.015::real) \<le> 0.015 \<and> (0.015::real) \<le> 0.015" by simp
  let ?ksh = "fl 0.015"
  have s_ksh: "0.014999 \<le> ?ksh \<and> ?ksh \<le> 0.015001"
    by (rule fl_within [OF k_sh]) simp_all
  let ?msh = "fl (?ksh * c1)"
  have s_msh: "2.006973 \<le> ?msh \<and> ?msh \<le> 2.007263"
    by (rule fl_mult_within [OF s_ksh s_c1]) simp_all
  let ?sh = "fl (1 + ?msh)"
  have s_sh: "3.006972 \<le> ?sh \<and> ?sh \<le> 3.007264"
    by (rule fl_add_within [OF one s_msh]) simp_all
  let ?tL = "fl (?dL / 1)"
  have a_dL1: "8.610999 \<le> \<bar>?dL / 1\<bar> \<and> \<bar>?dL / 1\<bar> \<le> 8.614001"
    using a_dL by simp
  have a_tL: "8.610998 \<le> \<bar>?tL\<bar> \<and> \<bar>?tL\<bar> \<le> 8.614002"
    by (rule fl_abs_within [OF a_dL1]) simp_all
  let ?tc = "fl (?dc / ?sc)"
  have a_tc: "1.256992 \<le> \<bar>?tc\<bar> \<and> \<bar>?tc\<bar> \<le> 1.257655"
    by (rule fl_div_within [OF a_dc s_sc]) simp_all
  let ?th = "fl (dh / ?sh)"
  have a_th: "4.074184 \<le> \<bar>?th\<bar> \<and> \<bar>?th\<bar> \<le> 4.077106"
    by (rule fl_div_within [OF a_dh s_sh]) simp_all
  let ?qL = "fl (?tL * ?tL)"
  let ?qc = "fl (?tc * ?tc)"
  let ?qh = "fl (?th * ?th)"
  have s_qL: "74.149286 \<le> ?qL \<and> ?qL \<le> 74.201031"
    by (rule fl_sq_within [OF a_tL]) simp_all
  have s_qc: "1.580028 \<le> ?qc \<and> ?qc \<le> 1.581697"
    by (rule fl_sq_within [OF a_tc]) simp_all
  have s_qh: "16.598975 \<le> ?qh \<and> ?qh \<le> 16.622794"
    by (rule fl_sq_within [OF a_th]) simp_all
  let ?s1 = "fl (?qL + ?qc)"
  have s_s1: "75.729313 \<le> ?s1 \<and> ?s1 \<le> 75.782729"
    by (rule fl_add_within [OF s_qL s_qc]) simp_all
  let ?s2 = "fl (?s1 + ?qh)"
  have s_s2: "92.328287 \<le> ?s2 \<and> ?s2 \<le> 92.405524"
    by (rule fl_add_within [OF s_s1 s_qh]) simp_all
  have "\<exists>d. fl_sqrt ?s2 = Some d \<and> 9.6 \<le> d \<and> d \<le> 9.62"
    by (rule fl_sqrt_within [OF s_s2, where lr = "9.60876" and hr = "9.61278"]) simp_all
  moreover have "deltaE2000 (rgbToLab 0 0 255) (rgbToLab 128 0 255) = fl_sqrt ?s2"
    by (rule deltaE2000_eval [OF c1_eq c2_eq dh_eq])
  ultimately show ?thesis by simp
qed

lemma deltaE2000_magenta_violet:
  "\<exists>d. deltaE2000 (rgbToLab 255 0 255) (rgbToLab 128 0 255) = Some d \<and> 23.21 \<le> d \<and> d \<le> 23.22"
proof -
  have xl: "60.324 \<le> lab_l (rgbToLab 255 0 255) \<and> lab_l (rgbToLab 255 0 255) \<le> 60.325"
    using lab_magenta_bounds by simp
  have xa: "98.233 \<le> lab_a (rgbToLab 255 0 255) \<and> lab_a (rgbToLab 255 0 255) \<le> 98.235"
    using lab_magenta_bounds by simp
  have xb: "- 60.825 \<le> lab_b (rgbToLab 255 0 255) \<and> lab_b (rgbToLab 255 0 255) \<le> - 60.824"
    using lab_magenta_bounds by simp
  have yl: "40.909 \<le> lab_l (rgbToLab 128 0 255) \<and> lab_l (rgbToLab 128 0 255) \<le> 40.91"
    using lab_violet_bounds by simp
  have ya: "83.167 \<le> lab_a (rgbToLab 128 0 255) \<and> lab_a (rgbToLab 128 0 255) \<le> 83.169"
    using lab_violet_bounds by simp
  have yb: "- 93.291 \<le> lab_b (rgbToLab 128 0 255) \<and> lab_b (rgbToLab 128 0 255) \<le> - 93.289"
    using lab_violet_bounds by simp
  let ?dL = "fl (lab_l (rgbToLab 255 0 255) - lab_l (rgbToLab 128 0 255))"
  let ?da = "fl (lab_a (rgbToLab 255 0 255) - lab_a (rgbToLab 128 0 255))"
  let ?db = "fl (lab_b (rgbToLab 255 0 255) - lab_b (rgbToLab 128 0 255))"
  have s_dL: "19.413999 \<le> ?dL \<and> ?dL \<le> 19.416001"
    by (rule fl_sub_within [OF xl yl]) simp_all
  have s_da: "15.063999 \<le> ?da \<and> ?da \<le> 15.068001"
    by (rule fl_sub_within [OF xa ya]) simp_all
  have s_db: "32.463999 \<le> ?db \<and> ?db \<le> 32.467001"
    by (rule fl_sub_within [OF xb yb]) simp_all
  have a_dL: "19.413999 \<le> \<bar>?dL\<bar> \<and> \<bar>?dL\<bar> \<le> 19.416001"
    using s_dL by (simp; linarith?)
  have a_da: "15.063999 \<le> \<bar>?da\<bar> \<and> \<bar>?da\<bar> \<le> 15.068001"
    using s_da by (simp; linarith?)
  have a_db: "32.463999 \<le> \<bar>?db\<bar> \<and> \<bar>?db\<bar> \<le> 32.467001"
    using s_db by (simp; linarith?)
  have a_xa: "98.233 \<le> \<bar>lab_a (rgbToLab 255 0 255)\<bar> \<and> \<bar>lab_a (rgbToLab 255 0 255)\<bar> \<le> 98.235"
    using xa by (simp; linarith?)
  have a_xb: "60.824 \<le> \<bar>lab_b (rgbToLab 255 0 255)\<bar> \<and> \<bar>lab_b (rgbToLab 255 0 255)\<bar> \<le> 60.825"
    using xb by (simp; linarith?)
  let ?rxa = "fl (lab_a (rgbToLab 255 0 255) * lab_a (rgbToLab 255 0 255))"
  let ?rxb = "fl (lab_b (rgbToLab 255 0 255) * lab_b (rgbToLab 255 0 255))"
  let ?rx = "fl (?rxa + ?rxb)"
  have s_rxa: "9649.722288 \<le> ?rxa \<and> ?rxa \<le> 9650.115226"
    by (rule fl_sq_within [OF a_xa]) simp_all
  have s_rxb: "3699.558975 \<le> ?rxb \<and> ?rxb \<le> 3699.680626"
    by (rule fl_sq_within [OF a_xb]) simp_all
  have s_rx: "13349.281262 \<le> ?rx \<and> ?rx \<le> 13349.795853"
    by (rule fl_add_within [OF s_rxa s_rxb]) simp_all
  have "\<exists>d. fl_sqrt ?rx = Some d \<and> 115.539088 \<le> d \<and> d \<le> 115.541318"
    by (rule fl_sqrt_within [OF s_rx, where lr = "115.539089" and hr = "115.541317"]) simp_all
  then obtain c1 where c1_eq: "fl_sqrt ?rx = Some c1" and s_c1: "115.539088 \<le> c1 \<and> c1 \<le> 115.541318"
    by blast
  have a_ya: "83.167 \<le> \<bar>lab_a (rgbToLab 128 0 255)\<bar> \<and> \<bar>lab_a (rgbToLab 128 0 255)\<bar> \<le> 83.169"
    using ya by (simp; linarith?)
  have a_yb: "93.289 \<le> \<bar>lab_b (rgbToLab 128 0 255)\<bar> \<and> \<bar>lab_b (rgbToLab 128 0 255)\<bar> \<le> 93.291"
    using yb by (simp; linarith?)
  let ?rya = "fl (lab_a (rgbToLab 128 0 255) * lab_a (rgbToLab 128 0 255))"
  let ?ryb = "fl (lab_b (rgbToLab 128 0 255) * lab_b (rgbToLab 128 0 255))"
  let ?ry = "fl (?rya + ?ryb)"
  have s_rya: "6916.749888 \<le> ?rya \<and> ?rya \<le> 6917.082562"
    by (rule fl_sq_within [OF a_ya]) simp_all
  have s_ryb: "8702.83752 \<le> ?ryb \<and> ?ryb \<le> 8703.210682"
    by (rule fl_sq_within [OF a_yb]) simp_all
  have s_ry: "15619.587407 \<le> ?ry \<and> ?ry \<le> 15620.293245"
    by (rule fl_add_within [OF s_rya s_ryb]) simp_all
  have "\<exists>d. fl_sqrt ?ry = Some d \<and> 124.978346 \<le> d \<and> d \<le> 124.981173"
    by (rule fl_sqrt_within [OF s_ry, where lr = "124.978347" and hr = "124.981172"]) simp_all
  then obtain c2 where c2_eq: "fl_sqrt ?ry = Some c2" and s_c2: "124.978346 \<le> c2 \<and> c2 \<le> 124.981173"
    by blast
  let ?dc = "fl (c1 - c2)"
  have s_dc: "- 9.442086 \<le> ?dc \<and> ?dc \<le> - 9.437027"
    by (rule fl_sub_within [OF s_c1 s_c2]) simp_all
  have a_dc: "9.437027 \<le> \<bar>?dc\<bar> \<and> \<bar>?dc\<bar> \<le> 9.442086"
    using s_dc by (simp; linarith?)
  let ?pa = "fl (?da * ?da)"
  let ?pb = "fl (?db * ?db)"
  let ?pc = "fl (?dc * ?dc)"
  have s_pa: "226.924065 \<le> ?pa \<and> ?pa \<le> 227.044655"
    by (rule fl_sq_within [OF a_da]) simp_all
  have s_pb: "1053.911231 \<le> ?pb \<and> ?pb \<le> 1054.106154"
    by (rule fl_sq_within [OF a_db]) simp_all
  have s_pc: "89.057478 \<le> ?pc \<and> ?pc \<le> 89.152989"
    by (rule fl_sq_within [OF a_dc]) simp_all
  let ?pab = "fl (?pa + ?pb)"
  have s_pab: "1280.835295 \<le> ?pab \<and> ?pab \<le> 1281.15081"
    by (rule fl_add_within [OF s_pa s_pb]) simp_all
  let ?hr = "fl (?pab - ?pc)"
  have s_hr: "1191.682305 \<le> ?hr \<and> ?hr \<le> 1192.093333"
    by (rule fl_sub_within [OF s_pab s_pc]) simp_all
  have "\<exists>d. fl_sqrt ?hr = Some d \<and> 34.52075 \<le> d \<and> d \<le> 34.526706"
    by (rule fl_sqrt_within [OF s_hr, where lr = "34.520751" and hr = "34.526705"]) simp_all
  then obtain dh where dh_eq: "fl_sqrt ?hr = Some dh" and s_dh: "34.52075 \<le> dh \<and> dh \<le> 34.526706"
    by blast
  have a_dh: "34.52075 \<le> \<bar>dh\<bar> \<and> \<bar>dh\<bar> \<le> 34.526706"
    using s_dh by (simp; linarith?)
  have one: "(1::real) \<le> 1 \<and> (1::real) \<le> 1" by simp
  have k_sc: "(0.045::real) \<le> 0.045 \<and> (0.045::real) \<le> 0.045" by simp
  let ?ksc = "fl 0.045"
  have s_ksc: "0.044999 \<le> ?ksc \<and> ?ksc \<le> 0.045001"
    by (rule fl_within [OF k_sc]) simp_all
  let ?msc = "fl (?ksc * c1)"
  have s_msc: "5.199143 \<le> ?msc \<and> ?msc \<le> 5.199475"
    by (rule fl_mult_within [OF s_ksc s_c1]) simp_all
  let ?sc = "fl (1 + ?msc)"
  have s_sc: "6.199142 \<le> ?sc \<and> ?sc \<le> 6.199476"
    by (rule fl_add_within [OF one s_msc]) simp_all
  have k_sh: "(0.015::real) \<le> 0.015 \<and> (0.015::real) \<le> 0.015" by simp
  let ?ksh = "fl 0.015"
  have s_ksh: "0.014999 \<le> ?ksh \<and> ?ksh \<le> 0.015001"
    by (rule fl_within [OF k_sh]) simp_all
  let ?msh = "fl (?ksh * c1)"
  have s_msh: "1.73297 \<le> ?msh \<and> ?msh \<le> 1.733236"
    by (rule fl_mult_within [OF s_ksh s_c1]) simp_all
  let ?sh = "fl (1 + ?msh)"
  have s_sh: "2.732969 \<le> ?sh \<and> ?sh \<le> 2.733237"
    by (rule fl_add_within [OF one s_msh]) simp_all
  let ?tL = "fl (?dL / 1)"
  have a_dL1: "19.413999 \<le> \<bar>?dL / 1\<bar> \<and> \<bar>?dL / 1\<bar> \<le> 19.416001"
    using a_dL by simp
  have a_tL: "19.413998 \<le> \<bar>?tL\<bar> \<and> \<bar>?tL\<bar> \<le> 19.416002"
    by (rule fl_abs_within [OF a_dL1]) simp_all
  let ?tc = "fl (?dc / ?sc)"
  have a_tc: "1.522229 \<le> \<bar>?tc\<bar> \<and> \<bar>?tc\<bar> \<le> 1.523128"
    by (rule fl_div_within [OF a_dc s_sc]) simp_all
  let ?th = "fl (dh / ?sh)"
  have a_th: "12.629987 \<le> \<bar>?th\<bar> \<and> \<bar>?th\<bar> \<le> 12.633406"
    by (rule fl_div_within [OF a_dh s_sh]) simp_all
  let ?qL = "fl (?tL * ?tL)"
  let ?qc = "fl (?tc * ?tc)"
  let ?qh = "fl (?th * ?th)"
  have s_qL: "376.903318 \<le> ?qL \<and> ?qL \<le> 376.981134"
    by (rule fl_sq_within [OF a_tL]) simp_all
  have s_qc: "2.317181 \<le> ?qc \<and> ?qc \<le> 2.319919"
    by (rule fl_sq_within [OF a_tc]) simp_all
  have s_qh: "159.516571 \<le> ?qh \<and> ?qh \<le> 159.602948"
    by (rule fl_sq_within [OF a_th]) simp_all
  let ?s1 = "fl (?qL + ?qc)"
  have s_s1: "379.220498 \<le> ?s1 \<and> ?s1 \<le> 379.301054"
    by (rule fl_add_within [OF s_qL s_qc]) simp_all
  let ?s2 = "fl (?s1 + ?qh)"
  have s_s2: "538.737068 \<le> ?s2 \<and> ?s2 \<le> 538.904003"
    by (rule fl_add_within [OF s_s1 s_qh]) simp_all
  have "\<exists>d. fl_sqrt ?s2 = Some d \<and> 23.21 \<le> d \<and> d \<le> 23.22"
    by (rule fl_sqrt_within [OF s_s2, where lr = "23.21071" and hr = "23.214306"]) simp_all
  moreover have "deltaE2000 (rgbToLab 255 0 255) (rgbToLab 128 0 255) = fl_sqrt ?s2"
    by (rule deltaE2000_eval [OF c1_eq c2_eq dh_eq])
  ultimately show ?thesis by simp
qed



text \<open>
  C8. The colour difference between the Lab values of pure red and of pure green is
  above \<open>50\<close>: it is a number, between \<open>73.42\<close> and \<open>73.44\<close>.
\<close>

theorem red_green_distance_above_50:
  "js_lt (Some 50) (deltaE2000 (rgbToLab 255 0 0) (rgbToLab 0 255 0))"
proof -
  from deltaE2000_red_lime obtain d
    where "deltaE2000 (rgbToLab 255 0 0) (rgbToLab 0 255 0) = Some d" and "73.42 \<le> d"
    by blast
  then show ?thesis by (simp add: js_lt_def)
qed

text \<open>
  C1, as stated, fails: the lookup compares Euclidean distances of RGB triples and never
  converts to Lab. For \<open>8000FF\<close> it returns \<open>magenta\<close>, although the entry \<open>blue\<close> has the
  smaller colour difference to the input, in either order of the arguments (about \<open>9.7\<close>
  against \<open>22.9\<close>, and \<open>9.6\<close> against \<open>23.2\<close>).
\<close>

theorem nearest_name_not_lab_nearest_counterexample:
  "findNearestColorName ''8000FF'' = Some \<lparr>cn_name = ''magenta'', cn_hex = ''#FF00FF'', cn_rgb = (255, 0, 255)\<rparr>
   \<and> \<lparr>cn_name = ''blue'', cn_hex = ''#0000FF'', cn_rgb = (0, 0, 255)\<rparr> \<in> set colorNames
   \<and> js_lt (deltaE2000 (rgbToLab 128 0 255) (rgbToLab 0 0 255))
            (deltaE2000 (rgbToLab 128 0 255) (rgbToLab 255 0 255))
   \<and> js_lt (deltaE2000 (rgbToLab 0 0 255) (rgbToLab 128 0 255))
            (deltaE2000 (rgbToLab 255 0 255) (rgbToLab 128 0 255))"
proof -
  have "findNearestColorName ''8000FF'' = Some \<lparr>cn_name = ''magenta'', cn_hex = ''#FF00FF'', cn_rgb = (255, 0, 255)\<rparr>"
    by (simp add: findNearestColorName_def parse_8000FF parse_FF0000 scan_violet)
  moreover have "\<lparr>cn_name = ''blue'', cn_hex = ''#0000FF'', cn_rgb = (0, 0, 255)\<rparr> \<in> set colorNames"
    by (simp add: colorNames_def)
  moreover from deltaE2000_violet_blue deltaE2000_violet_magenta
  have "js_lt (deltaE2000 (rgbToLab 128 0 255) (rgbToLab 0 0 255))
            (deltaE2000 (rgbToLab 128 0 255) (rgbToLab 255 0 255))"
    by (auto simp: js_lt_def)
  moreover from deltaE2000_blue_violet deltaE2000_magenta_violet
  have "js_lt (deltaE2000 (rgbToLab 0 0 255) (rgbToLab 128 0 255))
            (deltaE2000 (rgbToLab 255 0 255) (rgbToLab 128 0 255))"
    by (auto simp: js_lt_def)
  ultimately show ?thesis by blast
qed

subsection \<open>Exact evaluation of rounded operations\<close>

lemma fl_unfold:
  assumes "x \<noteq> 0" "exponent_of x = E" "pow2 (E - 52) = u" "round_half_even (x / u) = m"
    "real_of_int m * u = y"
  shows "fl x = y"
  using assms by (simp add: fl_def)

lemma fl_sqrt_unfold:
  assumes "0 < x" "exponent_of x = E" "(E - 104) div 2 = e" "pow2 e = p"
    "isqrt (nat \<lfloor>4 * (x / (p * p))\<rfloor>) = r" "real_of_int ((int r + 1) div 2) * p = y"
  shows "fl_sqrt x = Some y"
  using assms by (simp add: fl_sqrt_def)

lemma fl_sqrt_zero: "fl_sqrt 0 = Some 0"
  by (simp add: fl_sqrt_def)

lemma deltaE2000_black_345:
  "deltaE2000 \<lparr>lab_l = 0, lab_a = 0, lab_b = 0\<rparr> \<lparr>lab_l = 0, lab_a = 3, lab_b = 4\<rparr> = Some 5"
proof -
  have f0: "fl (- 5) = - 5"
    by (rule fl_unfold [where E = "2" and u = "1 / 1125899906842624" and m = "- 5629499534213120"])
       (simp_all add: exponent_of_def pow2_def round_half_even_def ilog2.simps)
  have f1: "fl (- 4) = - 4"
    by (rule fl_unfold [where E = "2" and u = "1 / 1125899906842624" and m = "- 4503599627370496"])
       (simp_all add: exponent_of_def pow2_def round_half_even_def ilog2.simps)
  have f2: "fl (- 3) = - 3"
    by (rule fl_unfold [where E = "1" and u = "1 / 2251799813685248" and m = "- 6755399441055744"])
       (simp_all add: exponent_of_def pow2_def round_half_even_def ilog2.simps)
  have f3: "fl (3 / 200) = 1080863910568919 / 72057594037927936"
    by (rule fl_unfold [where E = "- 7" and u = "1 / 576460752303423488" and m = "8646911284551352"])
       (simp_all add: exponent_of_def pow2_def round_half_even_def ilog2.simps)
  have f4: "fl (9 / 200) = 3242591731706757 / 72057594037927936"
    by (rule fl_unfold [where E = "- 5" and u = "1 / 144115188075855872" and m = "6485183463413514"])
       (simp_all add: exponent_of_def pow2_def round_half_even_def ilog2.simps)
  have f5: "fl 1 = 1"
    by (rule fl_unfold [where E = "0" and u = "1 / 4503599627370496" and m = "4503599627370496"])
       (simp_all add: exponent_of_def pow2_def round_half_even_def ilog2.simps)
  have f6: "fl 9 = 9"
    by (rule fl_unfold [where E = "3" and u = "1 / 562949953421312" and m = "5066549580791808"])
       (simp_all add: exponent_of_def pow2_def round_half_even_def ilog2.simps)
  have f7: "fl 16 = 16"
    by (rule fl_unfold [where E = "4" and u = "1 / 281474976710656" and m = "4503599627370496"])
       (simp_all add: exponent_of_def pow2_def round_half_even_def ilog2.simps)
  have f8: "fl 25 = 25"
    by (rule fl_unfold [where E = "4" and u = "1 / 281474976710656" and m = "7036874417766400"])
       (simp_all add: exponent_of_def pow2_def round_half_even_def ilog2.simps)
  have r0: "fl_sqrt 25 = Some 5"
    by (rule fl_sqrt_unfold [where E = "4" and e = "- 50" and p = "1 / 1125899906842624" and r = "11258999068426240"])
       (simp_all add: exponent_of_def pow2_def ilog2.simps isqrt.simps)
  show ?thesis
    by (simp add: deltaE2000_def fl_zero fl_sqrt_zero fl_sqrt_negative f0 f1 f2 f3 f4 f5 f6 f7 f8 r0)
qed

lemma deltaE2000_345_black:
  "deltaE2000 \<lparr>lab_l = 0, lab_a = 3, lab_b = 4\<rparr> \<lparr>lab_l = 0, lab_a = 0, lab_b = 0\<rparr> = Some (4595509823847445 / 1125899906842624)"
proof -
  have f0: "fl (3 / 200) = 1080863910568919 / 72057594037927936"
    by (rule fl_unfold [where E = "- 7" and u = "1 / 576460752303423488" and m = "8646911284551352"])
       (simp_all add: exponent_of_def pow2_def round_half_even_def ilog2.simps)
  have f1: "fl (9 / 200) = 3242591731706757 / 72057594037927936"
    by (rule fl_unfold [where E = "- 5" and u = "1 / 144115188075855872" and m = "6485183463413514"])
       (simp_all add: exponent_of_def pow2_def round_half_even_def ilog2.simps)
  have f2: "fl (5404319552844595 / 72057594037927936) = 5404319552844595 / 72057594037927936"
    by (rule fl_unfold [where E = "- 4" and u = "1 / 72057594037927936" and m = "5404319552844595"])
       (simp_all add: exponent_of_def pow2_def round_half_even_def ilog2.simps)
  have f3: "fl (16212958658533785 / 72057594037927936) = 2026619832316723 / 9007199254740992"
    by (rule fl_unfold [where E = "- 3" and u = "1 / 36028797018963968" and m = "8106479329266892"])
       (simp_all add: exponent_of_def pow2_def round_half_even_def ilog2.simps)
  have f4: "fl (77461913590772531 / 72057594037927936) = 4841369599423283 / 4503599627370496"
    by (rule fl_unfold [where E = "0" and u = "1 / 4503599627370496" and m = "4841369599423283"])
       (simp_all add: exponent_of_def pow2_def round_half_even_def ilog2.simps)
  have f5: "fl (11033819087057715 / 9007199254740992) = 2758454771764429 / 2251799813685248"
    by (rule fl_unfold [where E = "0" and u = "1 / 4503599627370496" and m = "5516909543528858"])
       (simp_all add: exponent_of_def pow2_def round_half_even_def ilog2.simps)
  have f6: "fl 3 = 3"
    by (rule fl_unfold [where E = "1" and u = "1 / 2251799813685248" and m = "6755399441055744"])
       (simp_all add: exponent_of_def pow2_def round_half_even_def ilog2.simps)
  have f7: "fl 4 = 4"
    by (rule fl_unfold [where E = "2" and u = "1 / 1125899906842624" and m = "4503599627370496"])
       (simp_all add: exponent_of_def pow2_def round_half_even_def ilog2.simps)
  have f8: "fl (11258999068426240 / 2758454771764429) = 4595509823847445 / 1125899906842624"
    by (rule fl_unfold [where E = "2" and u = "1 / 1125899906842624" and m = "4595509823847445"])
       (simp_all add: exponent_of_def pow2_def round_half_even_def ilog2.simps)
  have f9: "fl 5 = 5"
    by (rule fl_unfold [where E = "2" and u = "1 / 1125899906842624" and m = "5629499534213120"])
       (simp_all add: exponent_of_def pow2_def round_half_even_def ilog2.simps)
  have f10: "fl 9 = 9"
    by (rule fl_unfold [where E = "3" and u = "1 / 562949953421312" and m = "5066549580791808"])
       (simp_all add: exponent_of_def pow2_def round_half_even_def ilog2.simps)
  have f11: "fl 16 = 16"
    by (rule fl_unfold [where E = "4" and u = "1 / 281474976710656" and m = "4503599627370496"])
       (simp_all add: exponent_of_def pow2_def round_half_even_def ilog2.simps)
  have f12: "fl (21118710541078374973622633028025 / 1267650600228229401496703205376) = 2344647869309921 / 140737488355328"
    by (rule fl_unfold [where E = "4" and u = "1 / 281474976710656" and m = "4689295738619842"])
       (simp_all add: exponent_of_def pow2_def round_half_even_def ilog2.simps)
  have f13: "fl (2344647869309921 / 140737488355328) = 2344647869309921 / 140737488355328"
    by (rule fl_unfold [where E = "4" and u = "1 / 281474976710656" and m = "4689295738619842"])
       (simp_all add: exponent_of_def pow2_def round_half_even_def ilog2.simps)
  have f14: "fl 25 = 25"
    by (rule fl_unfold [where E = "4" and u = "1 / 281474976710656" and m = "7036874417766400"])
       (simp_all add: exponent_of_def pow2_def round_half_even_def ilog2.simps)
  have r0: "fl_sqrt (2344647869309921 / 140737488355328) = Some (4595509823847445 / 1125899906842624)"
    by (rule fl_sqrt_unfold [where E = "4" and e = "- 50" and p = "1 / 1125899906842624" and r = "9191019647694890"])
       (simp_all add: exponent_of_def pow2_def ilog2.simps isqrt.simps)
  have r1: "fl_sqrt 25 = Some 5"
    by (rule fl_sqrt_unfold [where E = "4" and e = "- 50" and p = "1 / 1125899906842624" and r = "11258999068426240"])
       (simp_all add: exponent_of_def pow2_def ilog2.simps isqrt.simps)
  show ?thesis
    by (simp add: deltaE2000_def fl_zero fl_sqrt_zero fl_sqrt_negative f0 f1 f2 f3 f4 f5 f6 f7 f8 f9 f10 f11 f12 f13 f14 r0 r1)
qed

subsection \<open>Symmetry of the colour difference\<close>

lemma fl_diff_swap: "fl (v - u) = - fl (u - v)"
  using fl_neg [of "u - v"] by simp

text \<open>
  C2, as amended. \<open>deltaE2000\<close> divides the chroma and hue terms by weights computed from
  the chroma of its first argument only. When the chroma computed for the two colours is
  the same double, the two orders of the arguments give the same result (NaN in both
  orders, or the same number): exchanging the arguments only negates the three
  differences and \<open>dc\<close>, and the rounding of a negated value is the negated rounding.
\<close>

theorem deltaE2000_symmetric_on_equal_chroma:
  assumes "chroma x = chroma y"
  shows "deltaE2000 x y = deltaE2000 y x"
proof (cases "chroma x")
  case None
  with assms have "chroma y = None" by simp
  with None show ?thesis by (simp add: deltaE2000_def chroma_def)
next
  case (Some c)
  with assms have y: "chroma y = Some c" by simp
  have swap: "fl (lab_l y - lab_l x) = - fl (lab_l x - lab_l y)"
    "fl (lab_a y - lab_a x) = - fl (lab_a x - lab_a y)"
    "fl (lab_b y - lab_b x) = - fl (lab_b x - lab_b y)"
    by (rule fl_diff_swap)+
  have neg: "fl (- fl (lab_l x - lab_l y)) = - fl (fl (lab_l x - lab_l y))"
    by (rule fl_neg)
  show ?thesis
    using Some y unfolding deltaE2000_def chroma_def Let_def swap
    by (simp add: neg)
qed

theorem deltaE2000_symmetric_on_equal_chroma_witness:
  "chroma \<lparr>lab_l = 10, lab_a = 3, lab_b = 4\<rparr> = chroma \<lparr>lab_l = 20, lab_a = 4, lab_b = 3\<rparr>
   \<and> deltaE2000 \<lparr>lab_l = 10, lab_a = 3, lab_b = 4\<rparr> \<lparr>lab_l = 20, lab_a = 4, lab_b = 3\<rparr>
     = deltaE2000 \<lparr>lab_l = 20, lab_a = 4, lab_b = 3\<rparr> \<lparr>lab_l = 10, lab_a = 3, lab_b = 4\<rparr>"
proof -
  have c: "chroma \<lparr>lab_l = 10, lab_a = 3, lab_b = 4\<rparr> = chroma \<lparr>lab_l = 20, lab_a = 4, lab_b = 3\<rparr>"
    by (simp add: chroma_def add.commute)
  from deltaE2000_symmetric_on_equal_chroma [OF c] c show ?thesis by blast
qed

text \<open>
  C2, as stated, fails: with \<open>(L, a, b) = (0, 0, 0)\<close> and \<open>(0, 3, 4)\<close> the result is the
  double \<open>5\<close> in one order and the double \<open>4595509823847445 / 2 ^ 50\<close>, about \<open>4.0816\<close>, in
  the other.
\<close>

theorem deltaE2000_asymmetric_counterexample:
  "deltaE2000 \<lparr>lab_l = 0, lab_a = 0, lab_b = 0\<rparr> \<lparr>lab_l = 0, lab_a = 3, lab_b = 4\<rparr> = Some 5
   \<and> deltaE2000 \<lparr>lab_l = 0, lab_a = 3, lab_b = 4\<rparr> \<lparr>lab_l = 0, lab_a = 0, lab_b = 0\<rparr>
       = Some (4595509823847445 / 1125899906842624)"
  using deltaE2000_black_345 deltaE2000_345_black by simp

subsection \<open>The square root of a negative argument\<close>

text \<open>Over the exact reals the argument of the square root \<open>dh\<close> is never negative.\<close>

lemma reverse_triangle_exact:
  fixes a1 b1 a2 b2 :: real
  shows "(sqrt (a1 * a1 + b1 * b1) - sqrt (a2 * a2 + b2 * b2)) * (sqrt (a1 * a1 + b1 * b1) - sqrt (a2 * a2 + b2 * b2))
         \<le> (a1 - a2) * (a1 - a2) + (b1 - b2) * (b1 - b2)"
proof -
  let ?u = "Complex a1 b1" and ?v = "Complex a2 b2"
  have c: "sqrt (a1 * a1 + b1 * b1) = cmod ?u" "sqrt (a2 * a2 + b2 * b2) = cmod ?v"
    by (simp_all add: cmod_def power2_eq_square)
  have "\<bar>cmod ?u - cmod ?v\<bar> \<le> cmod (?u - ?v)" by (rule norm_triangle_ineq3)
  then have "(cmod ?u - cmod ?v)\<^sup>2 \<le> (cmod (?u - ?v))\<^sup>2"
    by (metis abs_ge_zero power2_abs power_mono)
  also have "(cmod (?u - ?v))\<^sup>2 = (a1 - a2)\<^sup>2 + (b1 - b2)\<^sup>2"
    by (simp add: cmod_power2)
  finally show ?thesis unfolding c by (simp add: power2_eq_square)
qed

text \<open>
  C10, as stated, fails in the code. Over the reals the argument of the square root \<open>dh\<close>
  is not negative (\<open>reverse_triangle_exact\<close>). The code computes in doubles, where the
  rounded square \<open>dc * dc\<close> can exceed the rounded \<open>da * da + db * db\<close>: for
  \<open>(L, a, b) = (0, 1, 1)\<close> and \<open>(0, 2, 2)\<close> the argument of \<open>Math.sqrt\<close> is \<open>- 2 ^ - 51\<close>,
  and the result is NaN.
\<close>

theorem deltaE2000_NaN:
  "deltaE2000 \<lparr>lab_l = 0, lab_a = 1, lab_b = 1\<rparr> \<lparr>lab_l = 0, lab_a = 2, lab_b = 2\<rparr> = None"
proof -
  have f0: "fl (- (6369051672525773 / 4503599627370496)) = - (6369051672525773 / 4503599627370496)"
    by (rule fl_unfold [where E = "0" and u = "1 / 4503599627370496" and m = "- 6369051672525773"])
       (simp_all add: exponent_of_def pow2_def round_half_even_def ilog2.simps)
  have f1: "fl (- 1) = - 1"
    by (rule fl_unfold [where E = "0" and u = "1 / 4503599627370496" and m = "- 4503599627370496"])
       (simp_all add: exponent_of_def pow2_def round_half_even_def ilog2.simps)
  have f2: "fl (- (1 / 2251799813685248)) = - (1 / 2251799813685248)"
    by (rule fl_unfold [where E = "- 51" and u = "1 / 10141204801825835211973625643008" and m = "- 4503599627370496"])
       (simp_all add: exponent_of_def pow2_def round_half_even_def ilog2.simps)
  have f3: "fl 1 = 1"
    by (rule fl_unfold [where E = "0" and u = "1 / 4503599627370496" and m = "4503599627370496"])
       (simp_all add: exponent_of_def pow2_def round_half_even_def ilog2.simps)
  have f4: "fl 2 = 2"
    by (rule fl_unfold [where E = "1" and u = "1 / 2251799813685248" and m = "4503599627370496"])
       (simp_all add: exponent_of_def pow2_def round_half_even_def ilog2.simps)
  have f5: "fl (40564819207303346393761349247529 / 20282409603651670423947251286016) = 4503599627370497 / 2251799813685248"
    by (rule fl_unfold [where E = "1" and u = "1 / 2251799813685248" and m = "4503599627370497"])
       (simp_all add: exponent_of_def pow2_def round_half_even_def ilog2.simps)
  have f6: "fl 4 = 4"
    by (rule fl_unfold [where E = "2" and u = "1 / 1125899906842624" and m = "4503599627370496"])
       (simp_all add: exponent_of_def pow2_def round_half_even_def ilog2.simps)
  have f7: "fl 8 = 8"
    by (rule fl_unfold [where E = "3" and u = "1 / 562949953421312" and m = "4503599627370496"])
       (simp_all add: exponent_of_def pow2_def round_half_even_def ilog2.simps)
  have r0: "fl_sqrt 2 = Some (6369051672525773 / 4503599627370496)"
    by (rule fl_sqrt_unfold [where E = "1" and e = "- 52" and p = "1 / 4503599627370496" and r = "12738103345051545"])
       (simp_all add: exponent_of_def pow2_def ilog2.simps isqrt.simps)
  have r1: "fl_sqrt 8 = Some (6369051672525773 / 2251799813685248)"
    by (rule fl_sqrt_unfold [where E = "3" and e = "- 51" and p = "1 / 2251799813685248" and r = "12738103345051545"])
       (simp_all add: exponent_of_def pow2_def ilog2.simps isqrt.simps)
  show ?thesis
    by (simp add: deltaE2000_def fl_zero fl_sqrt_zero fl_sqrt_negative f0 f1 f2 f3 f4 f5 f6 f7 r0 r1)
qed

subsection \<open>The deduplication pass leaves no near-duplicates\<close>







end
